theory Spec2Isabelle
  imports Main
begin

section \<open>The network assessor: data model\<close>

text \<open>
  The program (\<^verbatim>\<open>assessor-cli.py\<close>) lists networking resources of cloud projects and
  regions through an external API and stores every collection as a JSON file. Everything
  it does beyond computing values is an effect on the outside world: requests to the API,
  lines printed to the console, files and directories. The model passes that world
  explicitly, as a record, and returns it updated.
\<close>

subsection \<open>JSON values, as the API client returns them\<close>

text \<open>
  \<^verbatim>\<open>execute()\<close> returns the parsed JSON body of a response. An object is an association
  list in insertion order (a Python dict); lookup takes the first binding of a key.
\<close>

datatype json =
    JNull
  | JBool bool
  | JNum int
  | JStr string
  | JArr "json list"
  | JObj "(string \<times> json) list"

text \<open>
  Exceptions are values. \<open>ApiError\<close> stands for whatever a list call raises (HTTP error,
  rejected parameter, network failure), \<open>CredentialsError\<close> for a failure of
  \<^verbatim>\<open>get_authenticated_service\<close>; the others are the Python exceptions of the same name.
\<close>

datatype error =
    ApiError string
  | CredentialsError string
  | KeyError string
  | TypeError
  | FileNotFoundError string
  | NotADirectoryError string
  | IsADirectoryError string
  | FileExistsError string

text \<open>\<^verbatim>\<open>x[key]\<close> with a string key: only a dict can be subscripted with a string.\<close>

fun py_getitem :: "json \<Rightarrow> string \<Rightarrow> error + json" where
  "py_getitem (JObj kvs) key =
     (case map_of kvs key of None \<Rightarrow> Inl (KeyError key) | Some v \<Rightarrow> Inr v)"
| "py_getitem _ key = Inl TypeError"

text \<open>
  \<^verbatim>\<open>for x in v\<close>: a list yields its elements, a dict its keys, a string its characters;
  nothing else is iterable.
\<close>

fun py_iter :: "json \<Rightarrow> error + json list" where
  "py_iter (JArr xs) = Inr xs"
| "py_iter (JObj kvs) = Inr (map (\<lambda>kv. JStr (fst kv)) kvs)"
| "py_iter (JStr s) = Inr (map (\<lambda>c. JStr [c]) s)"
| "py_iter _ = Inl TypeError"

text \<open>\<^verbatim>\<open>s.split(sep)\<close> for a one-character separator: empty pieces are kept.\<close>

fun py_split :: "char \<Rightarrow> string \<Rightarrow> string list" where
  "py_split sep [] = [[]]"
| "py_split sep (c # cs) =
     (if c = sep then [] # py_split sep cs
      else (case py_split sep cs of
              [] \<Rightarrow> [[c]]
            | piece # pieces \<Rightarrow> (c # piece) # pieces))"

subsection \<open>The API\<close>

text \<open>
  One constructor per list method the program calls, carrying the arguments of the call:
  the project alone, or the project and the region.
\<close>

datatype request =
    RegionsList string
  | NetworksList string
  | SubnetworksList string string
  | RoutesList string
  | InterconnectsList string
  | RegionBackendServicesList string string
  | VpnGatewaysList string string
  | ExternalVpnGatewaysList string
  | VpnTunnelsList string string
  | RoutersList string string

text \<open>
  The service answers a request with a JSON body or an exception. The answer may depend on
  the requests issued before (the first argument), so that the API may change between two
  calls.
\<close>

type_synonym service = "request list \<Rightarrow> request \<Rightarrow> error + json"

subsection \<open>The file system\<close>

text \<open>
  Paths are literal strings (no symbolic links, no \<^verbatim>\<open>.\<close> or \<^verbatim>\<open>..\<close> resolution); a path
  without a slash is an entry of the working directory, which exists. Permissions are not
  modelled.
\<close>

datatype node = File string | Dir

type_synonym filesystem = "string \<Rightarrow> node option"

definition os_path_exists :: "filesystem \<Rightarrow> string \<Rightarrow> bool" where
  "os_path_exists files path = (files path \<noteq> None)"

text \<open>\<^verbatim>\<open>posixpath.join(a, b)\<close>: an absolute \<open>b\<close> discards \<open>a\<close>.\<close>

definition os_path_join :: "string \<Rightarrow> string \<Rightarrow> string" where
  "os_path_join a b =
     (if b \<noteq> [] \<and> hd b = CHR ''/'' then b
      else if a = [] \<or> last a = CHR ''/'' then a @ b
      else a @ ''/'' @ b)"

text \<open>The directory part of a path: what stands before its last slash, if it has one.\<close>

fun dirname :: "string \<Rightarrow> string option" where
  "dirname [] = None"
| "dirname (c # cs) =
     (case dirname cs of
        Some d \<Rightarrow> Some (c # d)
      | None \<Rightarrow> if c = CHR ''/'' then Some [] else None)"

text \<open>
  \<^verbatim>\<open>os.makedirs(path)\<close> for a path of one component, as the program calls it: the
  directory is created in the working directory.
\<close>

definition os_makedirs :: "string \<Rightarrow> filesystem \<Rightarrow> error + filesystem" where
  "os_makedirs path files =
     (if files path \<noteq> None then Inl (FileExistsError path)
      else Inr (files(path \<mapsto> Dir)))"

text \<open>
  \<^verbatim>\<open>with open(path, 'w') as f: f.write(text)\<close>: the directory of the path must be an
  existing directory (the root is written \<open>''/''\<close>), and the path itself no directory.
\<close>

definition write_file :: "string \<Rightarrow> string \<Rightarrow> filesystem \<Rightarrow> error + filesystem" where
  "write_file path content files =
     (let parent = (case dirname path of
                      None \<Rightarrow> Some Dir
                    | Some d \<Rightarrow> files (if d = [] then ''/'' else d))
      in case parent of
           None \<Rightarrow> Inl (FileNotFoundError path)
         | Some (File _) \<Rightarrow> Inl (NotADirectoryError path)
         | Some Dir \<Rightarrow>
             (if files path = Some Dir then Inl (IsADirectoryError path)
              else Inr (files(path \<mapsto> File content))))"

subsection \<open>The world, and computations in it\<close>

record world =
  calls :: "request list"
  stdout :: "string list"
  fs :: filesystem

text \<open>
  \<open>calls\<close> is the log of the requests sent so far, \<open>stdout\<close> the strings printed so far
  (one entry per \<^verbatim>\<open>print\<close>), \<open>fs\<close> the file system.
\<close>

type_synonym 'a action = "world \<Rightarrow> (error + 'a) \<times> world"

definition and_then :: "'a action \<Rightarrow> ('a \<Rightarrow> 'b action) \<Rightarrow> 'b action" where
  "and_then m f w = (case m w of (Inl e, w') \<Rightarrow> (Inl e, w') | (Inr x, w') \<Rightarrow> f x w')"

definition return :: "'a \<Rightarrow> 'a action" where
  "return x w = (Inr x, w)"

definition lift :: "error + 'a \<Rightarrow> 'a action" where
  "lift r w = (r, w)"

text \<open>\<^verbatim>\<open>service.X().list(...).execute()\<close>: the request is sent and logged.\<close>

definition execute :: "service \<Rightarrow> request \<Rightarrow> json action" where
  "execute service req w = (service (calls w) req, w\<lparr>calls := calls w @ [req]\<rparr>)"

definition print :: "string \<Rightarrow> world \<Rightarrow> world" where
  "print line w = w\<lparr>stdout := stdout w @ [line]\<rparr>"

section \<open>The program\<close>

subsection \<open>\<^verbatim>\<open>check_region\<close>\<close>

text \<open>The loop of \<^verbatim>\<open>check_region\<close> over the entries of the listing.\<close>

fun scan_regions :: "json list \<Rightarrow> string \<Rightarrow> error + bool" where
  "scan_regions [] region = Inr False"
| "scan_regions (available_region # rest) region =
     (case py_getitem available_region ''name'' of
        Inl e \<Rightarrow> Inl e
      | Inr name \<Rightarrow> if name = JStr region then Inr True else scan_regions rest region)"

definition check_region :: "service \<Rightarrow> string \<Rightarrow> string \<Rightarrow> bool action" where
  "check_region service project_id region =
     and_then (execute service (RegionsList project_id)) (\<lambda>available_regions.
     and_then (lift (py_getitem available_regions ''items'')) (\<lambda>items.
     and_then (lift (py_iter items)) (\<lambda>entries.
     lift (scan_regions entries region))))"

subsection \<open>\<^verbatim>\<open>get_network_info\<close>\<close>

type_synonym network_info = "(string \<times> json) list"

definition get_network_info :: "service \<Rightarrow> string \<Rightarrow> string \<Rightarrow> network_info action" where
  "get_network_info service project_id region =
     and_then (execute service (NetworksList project_id)) (\<lambda>vpcs.
     and_then (execute service (SubnetworksList project_id region)) (\<lambda>subnetworks.
     and_then (execute service (RoutesList project_id)) (\<lambda>routes.
     and_then (execute service (InterconnectsList project_id)) (\<lambda>interconnects.
     and_then (execute service (RegionBackendServicesList project_id region)) (\<lambda>lan_interfaces.
     and_then (execute service (VpnGatewaysList project_id region)) (\<lambda>vpn_gateways.
     and_then (execute service (ExternalVpnGatewaysList project_id)) (\<lambda>external_gateways.
     and_then (execute service (VpnTunnelsList project_id region)) (\<lambda>vpn_tunnels.
     and_then (execute service (RoutersList project_id region)) (\<lambda>routers.
     return
       [(''project'', JStr project_id),
        (''region'', JStr region),
        (''vpcs'', vpcs),
        (''subnetworks'', subnetworks),
        (''routes'', routes),
        (''interconnects'', interconnects),
        (''lan_interfaces'', lan_interfaces),
        (''vpn_gateways'', vpn_gateways),
        (''external_gateways'', external_gateways),
        (''vpn_tunnels'', vpn_tunnels),
        (''routers'', routers)])))))))))"

subsection \<open>\<^verbatim>\<open>main\<close>\<close>

definition output_directory :: string where
  "output_directory = ''output''"

text \<open>The console dump of the record, when \<^verbatim>\<open>--verbose\<close> is set.\<close>

fun report :: "(json \<Rightarrow> string) \<Rightarrow> network_info \<Rightarrow> world \<Rightarrow> world" where
  "report dumps [] w = w"
| "report dumps ((key, val) # rest) w =
     report dumps rest (print ''-----'' (print (dumps val) (print (key @ '':'') w)))"

definition output_file :: "string \<Rightarrow> string \<Rightarrow> string \<Rightarrow> string" where
  "output_file project_id region object_type =
     os_path_join output_directory
       (project_id @ ''_'' @ region @ ''_'' @ object_type @ ''.json'')"

text \<open>
  The loop that writes the files. \<open>dumps\<close> is \<^verbatim>\<open>json.dumps(_, indent=2)\<close>, the text that
  \<^verbatim>\<open>json.dump(_, f, indent=2)\<close> writes; the formatter belongs to the standard library and is
  a parameter here.
\<close>

fun persist :: "(json \<Rightarrow> string) \<Rightarrow> string \<Rightarrow> string \<Rightarrow> network_info \<Rightarrow> unit action" where
  "persist dumps project_id region [] w = (Inr (), w)"
| "persist dumps project_id region ((object_type, objects) # rest) w =
     (if \<not> os_path_exists (fs w) (output_file project_id region object_type) then
        (case write_file (output_file project_id region object_type) (dumps objects) (fs w) of
           Inl e \<Rightarrow> (Inl e, w)
         | Inr files \<Rightarrow> persist dumps project_id region rest (w\<lparr>fs := files\<rparr>))
      else
        persist dumps project_id region rest
          (print (''File '' @ output_file project_id region object_type @ '' already exists.'') w))"

definition ensure_output_directory :: "unit action" where
  "ensure_output_directory w =
     (if \<not> os_path_exists (fs w) output_directory then
        (case os_makedirs output_directory (fs w) of
           Inl e \<Rightarrow> (Inl e, w)
         | Inr files \<Rightarrow> (Inr (), w\<lparr>fs := files\<rparr>))
      else (Inr (), w))"

text \<open>
  How a run, or a part of it, ends: it goes on to the next statement, it leaves through
  \<^verbatim>\<open>sys.exit\<close>, or an exception is raised and never caught.
\<close>

datatype outcome = Completed | Exit nat | Raised error


text \<open>The body of the inner loop, for one pair of a project and a region.\<close>

definition process_pair ::
  "service \<Rightarrow> (json \<Rightarrow> string) \<Rightarrow> bool \<Rightarrow> string \<Rightarrow> string \<Rightarrow> world \<Rightarrow> outcome \<times> world" where
  "process_pair service dumps verbose project_id region w =
     (case check_region service project_id region w of
        (Inl e, w1) \<Rightarrow> (Raised e, w1)
      | (Inr False, w1) \<Rightarrow> (Exit 1, print (''The region '' @ region @ '' is not valid.'') w1)
      | (Inr True, w1) \<Rightarrow>
          (case get_network_info service project_id region w1 of
             (Inl e, w2) \<Rightarrow> (Raised e, w2)
           | (Inr network_info, w2) \<Rightarrow>
               (case and_then ensure_output_directory
                       (\<lambda>_. persist dumps project_id region network_info)
                       (if verbose then report dumps network_info w2 else w2) of
                  (Inl e, w3) \<Rightarrow> (Raised e, w3)
                | (Inr _, w3) \<Rightarrow> (Completed, w3))))"

fun region_loop ::
  "service \<Rightarrow> (json \<Rightarrow> string) \<Rightarrow> bool \<Rightarrow> string \<Rightarrow> string list \<Rightarrow> world \<Rightarrow> outcome \<times> world" where
  "region_loop service dumps verbose project_id [] w = (Completed, w)"
| "region_loop service dumps verbose project_id (region # rest) w =
     (case process_pair service dumps verbose project_id region w of
        (Completed, w') \<Rightarrow> region_loop service dumps verbose project_id rest w'
      | (out, w') \<Rightarrow> (out, w'))"

fun project_loop ::
  "service \<Rightarrow> (json \<Rightarrow> string) \<Rightarrow> bool \<Rightarrow> string list \<Rightarrow> string list \<Rightarrow> world \<Rightarrow> outcome \<times> world" where
  "project_loop service dumps verbose [] regions w = (Completed, w)"
| "project_loop service dumps verbose (project_id # rest) regions w =
     (case region_loop service dumps verbose project_id regions w of
        (Completed, w') \<Rightarrow> project_loop service dumps verbose rest regions w'
      | (out, w') \<Rightarrow> (out, w'))"

text \<open>The command line, once \<^verbatim>\<open>argparse\<close> has read it.\<close>

record args =
  arg_project :: string
  arg_region :: string
  arg_verbose :: bool

text \<open>
  \<^verbatim>\<open>main\<close>. The first argument is what \<^verbatim>\<open>get_authenticated_service\<close> produces: the
  client, or the exception that credential resolution raised.
\<close>

definition main :: "error + service \<Rightarrow> (json \<Rightarrow> string) \<Rightarrow> args \<Rightarrow> world \<Rightarrow> outcome \<times> world" where
  "main get_authenticated_service dumps a w =
     (let project_ids = py_split CHR '','' (arg_project a);
          regions = py_split CHR '','' (arg_region a)
      in case get_authenticated_service of
           Inl e \<Rightarrow> (Raised e, w)
         | Inr service \<Rightarrow> project_loop service dumps (arg_verbose a) project_ids regions w)"

subsection \<open>Vocabulary of the specification, and example inputs\<close>

text \<open>
  The specification calls resource keys the keys of the record other than \<open>project\<close> and
  \<open>region\<close>.
\<close>

definition resource_keys :: "network_info \<Rightarrow> string list" where
  "resource_keys info = filter (\<lambda>k. k \<noteq> ''project'' \<and> k \<noteq> ''region'') (map fst info)"

text \<open>The list calls of \<^verbatim>\<open>get_network_info\<close>, in the order of the program text.\<close>

definition list_calls :: "string \<Rightarrow> string \<Rightarrow> request list" where
  "list_calls project_id region =
     [NetworksList project_id,
      SubnetworksList project_id region,
      RoutesList project_id,
      InterconnectsList project_id,
      RegionBackendServicesList project_id region,
      VpnGatewaysList project_id region,
      ExternalVpnGatewaysList project_id,
      VpnTunnelsList project_id region,
      RoutersList project_id region]"

text \<open>
  An example API for the concrete runs below: the projects \<open>demo-proj\<close> and
  \<open>locked-proj\<close> have two regions, the project \<open>empty-proj\<close> answers with a listing
  that has no \<open>items\<close>, any other project is unknown; routes can be listed for
  \<open>demo-proj\<close> only.
\<close>

definition demo_regions :: json where
  "demo_regions =
     JObj [(''kind'', JStr ''compute#regionList''),
           (''items'', JArr [JObj [(''name'', JStr ''us-central1'')],
                             JObj [(''name'', JStr ''europe-west1'')]])]"

definition demo_service :: service where
  "demo_service history req =
     (case req of
        RegionsList p \<Rightarrow>
          if p = ''demo-proj'' \<or> p = ''locked-proj'' then Inr demo_regions
          else if p = ''empty-proj'' then Inr (JObj [(''kind'', JStr ''compute#regionList'')])
          else Inl (ApiError ''notFound'')
      | NetworksList p \<Rightarrow> Inr (JObj [(''items'', JArr [JObj [(''name'', JStr ''default'')]])])
      | RoutesList p \<Rightarrow> if p = ''demo-proj'' then Inr (JObj []) else Inl (ApiError ''forbidden'')
      | _ \<Rightarrow> Inr (JObj []))"

text \<open>
  An example formatter for the concrete runs (the theorems hold for every formatter): a
  string in double quotes, the empty object as \<^verbatim>\<open>{}\<close>, anything else abbreviated.
\<close>

fun demo_dumps :: "json \<Rightarrow> string" where
  "demo_dumps (JStr s) = [CHR 0x22] @ s @ [CHR 0x22]"
| "demo_dumps (JObj []) = ''{}''"
| "demo_dumps _ = ''{...}''"

definition demo_world :: world where
  "demo_world = \<lparr>calls = [], stdout = [], fs = Map.empty\<rparr>"

text \<open>The record of the example project and the region \<open>us-central1\<close>.\<close>

definition demo_info :: network_info where
  "demo_info =
     [(''project'', JStr ''demo-proj''),
      (''region'', JStr ''us-central1''),
      (''vpcs'', JObj [(''items'', JArr [JObj [(''name'', JStr ''default'')]])]),
      (''subnetworks'', JObj []),
      (''routes'', JObj []),
      (''interconnects'', JObj []),
      (''lan_interfaces'', JObj []),
      (''vpn_gateways'', JObj []),
      (''external_gateways'', JObj []),
      (''vpn_tunnels'', JObj []),
      (''routers'', JObj [])]"

text \<open>A world in which one output file of the example pair is already there.\<close>

definition stale_world :: world where
  "stale_world =
     \<lparr>calls = [], stdout = [],
      fs = [''output'' \<mapsto> Dir,
            ''output/demo-proj_us-central1_vpcs.json'' \<mapsto> File ''stale'']\<rparr>"

text \<open>
  An auxiliary function for the proofs about \<^verbatim>\<open>get_network_info\<close>: a list of requests
  sent one after the other, stopping at the first that raises.
\<close>

fun execute_all :: "service \<Rightarrow> request list \<Rightarrow> json list action" where
  "execute_all service [] w = (Inr [], w)"
| "execute_all service (req # reqs) w =
     and_then (execute service req)
       (\<lambda>v. and_then (execute_all service reqs) (\<lambda>vs. return (v # vs))) w"

section \<open>Auxiliary facts\<close>

subsection \<open>Splitting the arguments\<close>

lemma py_split_nonempty: "py_split sep s \<noteq> []"
  by (induction s) (auto split: list.splits)

lemma py_split_append:
  "py_split sep (xs @ sep # ys) = py_split sep xs @ py_split sep ys"
proof (induction xs)
  case Nil
  show ?case by simp
next
  case (Cons x xs)
  obtain piece pieces where "py_split sep xs = piece # pieces"
    using py_split_nonempty [of sep xs] by (cases "py_split sep xs") auto
  with Cons show ?case by simp
qed

lemma py_split_length: "length (py_split sep s) = Suc (count_list s sep)"
proof (induction s)
  case Nil
  show ?case by simp
next
  case (Cons c s)
  obtain piece pieces where "py_split sep s = piece # pieces"
    using py_split_nonempty [of sep s] by (cases "py_split sep s") auto
  with Cons show ?case by auto
qed

lemma py_split_concat: "concat (py_split sep s) = filter (\<lambda>c. c \<noteq> sep) s"
proof (induction s)
  case Nil
  show ?case by simp
next
  case (Cons c s)
  obtain piece pieces where "py_split sep s = piece # pieces"
    using py_split_nonempty [of sep s] by (cases "py_split sep s") auto
  with Cons show ?case by auto
qed

subsection \<open>Region validation\<close>

lemma check_region_world:
  "snd (check_region service project_id region w) = w\<lparr>calls := calls w @ [RegionsList project_id]\<rparr>"
  by (simp add: check_region_def and_then_def execute_def lift_def split: sum.splits)

lemma check_region_result:
  "fst (check_region service project_id region w) =
     (case service (calls w) (RegionsList project_id) of
        Inl e \<Rightarrow> Inl e
      | Inr available_regions \<Rightarrow>
          (case py_getitem available_regions ''items'' of
             Inl e \<Rightarrow> Inl e
           | Inr items \<Rightarrow>
               (case py_iter items of
                  Inl e \<Rightarrow> Inl e
                | Inr entries \<Rightarrow> scan_regions entries region)))"
  by (simp add: check_region_def and_then_def execute_def lift_def split: sum.splits)

lemma scan_regions_True:
  "scan_regions entries region = Inr True \<Longrightarrow>
     \<exists>e \<in> set entries. py_getitem e ''name'' = Inr (JStr region)"
  by (induction entries) (auto split: sum.splits if_splits)

lemma scan_regions_named:
  "\<forall>e \<in> set entries. \<exists>n. py_getitem e ''name'' = Inr n \<Longrightarrow>
     scan_regions entries region = Inr (\<exists>e \<in> set entries. py_getitem e ''name'' = Inr (JStr region))"
  by (induction entries) (auto split: sum.splits)

lemma world_after_check:
  "check_region service project_id region w = (res, w1) \<Longrightarrow>
     fs w1 = fs w \<and> stdout w1 = stdout w \<and> calls w1 = calls w @ [RegionsList project_id]"
  using check_region_world [of service project_id region w] by simp


subsection \<open>Requests sent in sequence\<close>

lemma execute_all_Inr:
  "execute_all service reqs w = (Inr vs, w') \<Longrightarrow>
     w' = w\<lparr>calls := calls w @ reqs\<rparr> \<and> length vs = length reqs \<and>
     (\<forall>i<length reqs. service (calls w @ take i reqs) (reqs ! i) = Inr (vs ! i))"
proof (induction reqs arbitrary: w vs)
  case Nil
  then show ?case by simp
next
  case (Cons req reqs)
  from Cons.prems obtain v vs' w1 where
    v: "service (calls w) req = Inr v" and
    rest: "execute_all service reqs (w\<lparr>calls := calls w @ [req]\<rparr>) = (Inr vs', w')" and
    vs: "vs = v # vs'"
    by (auto simp: and_then_def execute_def return_def split: sum.splits prod.splits)
  from Cons.IH [OF rest] have ih:
    "w' = w\<lparr>calls := calls w @ req # reqs\<rparr>" "length vs' = length reqs"
    "\<forall>i<length reqs. service (calls w @ req # take i reqs) (reqs ! i) = Inr (vs' ! i)"
    by simp_all
  have "service (calls w @ take i (req # reqs)) ((req # reqs) ! i) = Inr (vs ! i)"
    if "i < length (req # reqs)" for i
    using that v ih(3) vs by (cases i) simp_all
  with ih vs show ?case by simp
qed

lemma execute_all_Inl:
  "execute_all service reqs w = (Inl e, w') \<Longrightarrow>
     \<exists>n<length reqs.
       w' = w\<lparr>calls := calls w @ take (Suc n) reqs\<rparr> \<and>
       service (calls w @ take n reqs) (reqs ! n) = Inl e \<and>
       (\<forall>i<n. \<exists>v. service (calls w @ take i reqs) (reqs ! i) = Inr v)"
proof (induction reqs arbitrary: w)
  case Nil
  then show ?case by simp
next
  case (Cons req reqs)
  show ?case
  proof (cases "service (calls w) req")
    case (Inl e')
    with Cons.prems have "e' = e" "w' = w\<lparr>calls := calls w @ [req]\<rparr>"
      by (auto simp: and_then_def execute_def)
    with Inl have "w' = w\<lparr>calls := calls w @ take (Suc 0) (req # reqs)\<rparr> \<and>
       service (calls w @ take 0 (req # reqs)) ((req # reqs) ! 0) = Inl e \<and>
       (\<forall>i<0. \<exists>v. service (calls w @ take i (req # reqs)) ((req # reqs) ! i) = Inr v)"
      by simp
    then show ?thesis by blast
  next
    case (Inr v)
    with Cons.prems have
      rest: "execute_all service reqs (w\<lparr>calls := calls w @ [req]\<rparr>) = (Inl e, w')"
      by (auto simp: and_then_def execute_def return_def split: sum.splits prod.splits)
    from Cons.IH [OF rest] obtain n where n: "n < length reqs"
      "w' = w\<lparr>calls := calls w @ req # take (Suc n) reqs\<rparr>"
      "service (calls w @ req # take n reqs) (reqs ! n) = Inl e"
      "\<forall>i<n. \<exists>v. service (calls w @ req # take i reqs) (reqs ! i) = Inr v"
      by auto
    have "\<exists>v. service (calls w @ take i (req # reqs)) ((req # reqs) ! i) = Inr v"
      if "i < Suc n" for i
      using that Inr n(4) by (cases i) simp_all
    with n have "Suc n < length (req # reqs) \<and>
       w' = w\<lparr>calls := calls w @ take (Suc (Suc n)) (req # reqs)\<rparr> \<and>
       service (calls w @ take (Suc n) (req # reqs)) ((req # reqs) ! Suc n) = Inl e \<and>
       (\<forall>i<Suc n. \<exists>v. service (calls w @ take i (req # reqs)) ((req # reqs) ! i) = Inr v)"
      by simp
    then show ?thesis by blast
  qed
qed

lemma get_network_info_execute_all:
  "get_network_info service project_id region w =
     (case execute_all service (list_calls project_id region) w of
        (Inl e, w') \<Rightarrow> (Inl e, w')
      | (Inr vs, w') \<Rightarrow>
          (Inr ((''project'', JStr project_id) # (''region'', JStr region) #
                zip [''vpcs'', ''subnetworks'', ''routes'', ''interconnects'', ''lan_interfaces'',
                     ''vpn_gateways'', ''external_gateways'', ''vpn_tunnels'', ''routers''] vs),
           w'))"
  by (simp add: get_network_info_def list_calls_def and_then_def execute_def return_def
      split: sum.splits)

lemma get_network_info_Inr:
  assumes "get_network_info service project_id region w = (Inr info, w')"
  shows "\<exists>vs. execute_all service (list_calls project_id region) w = (Inr vs, w') \<and>
           length vs = 9 \<and>
           info = (''project'', JStr project_id) # (''region'', JStr region) #
                zip [''vpcs'', ''subnetworks'', ''routes'', ''interconnects'', ''lan_interfaces'',
                     ''vpn_gateways'', ''external_gateways'', ''vpn_tunnels'', ''routers''] vs"
proof -
  from assms obtain vs where
    vs: "execute_all service (list_calls project_id region) w = (Inr vs, w')" and
    info: "info = (''project'', JStr project_id) # (''region'', JStr region) #
                zip [''vpcs'', ''subnetworks'', ''routes'', ''interconnects'', ''lan_interfaces'',
                     ''vpn_gateways'', ''external_gateways'', ''vpn_tunnels'', ''routers''] vs"
    unfolding get_network_info_execute_all by (auto split: prod.splits sum.splits)
  from execute_all_Inr [OF vs] have "length vs = 9" by (simp add: list_calls_def)
  with vs info show ?thesis by blast
qed

lemma get_network_info_Inl:
  assumes "get_network_info service project_id region w = (Inl e, w')"
  shows "execute_all service (list_calls project_id region) w = (Inl e, w')"
  using assms unfolding get_network_info_execute_all by (auto split: prod.splits sum.splits)

lemma length_9_cases:
  "length vs = 9 \<Longrightarrow> \<exists>a b c d e f g h i. vs = [a, b, c, d, e, f, g, h, i]"
  by (auto simp: numeral_eq_Suc length_Suc_conv)

lemma network_info_key_list:
  assumes "get_network_info service project_id region w = (Inr info, w')"
  shows "map fst info =
           [''project'', ''region'', ''vpcs'', ''subnetworks'', ''routes'', ''interconnects'',
            ''lan_interfaces'', ''vpn_gateways'', ''external_gateways'', ''vpn_tunnels'',
            ''routers'']"
proof -
  from get_network_info_Inr [OF assms] obtain vs where vs: "length vs = 9" and
    info: "info = (''project'', JStr project_id) # (''region'', JStr region) #
                zip [''vpcs'', ''subnetworks'', ''routes'', ''interconnects'', ''lan_interfaces'',
                     ''vpn_gateways'', ''external_gateways'', ''vpn_tunnels'', ''routers''] vs"
    by blast
  from length_9_cases [OF vs] obtain a b c d e f g h i where "vs = [a, b, c, d, e, f, g, h, i]"
    by blast
  with info show ?thesis by simp
qed

lemma get_network_info_world:
  "fs (snd (get_network_info service project_id region w)) = fs w \<and>
   stdout (snd (get_network_info service project_id region w)) = stdout w"
proof (cases "get_network_info service project_id region w")
  case (Pair res w')
  show ?thesis
  proof (cases res)
    case (Inl e)
    with Pair get_network_info_Inl have "execute_all service (list_calls project_id region) w = (Inl e, w')"
      by blast
    from execute_all_Inl [OF this] Pair show ?thesis by auto
  next
    case (Inr info)
    with Pair get_network_info_Inr obtain vs where
      "execute_all service (list_calls project_id region) w = (Inr vs, w')"
      by blast
    from execute_all_Inr [OF this] Pair show ?thesis by auto
  qed
qed

lemma world_after_collect:
  "get_network_info service project_id region w1 = (res, w2) \<Longrightarrow>
     fs w2 = fs w1 \<and> stdout w2 = stdout w1"
  using get_network_info_world [of service project_id region w1] by simp

lemma get_network_info_calls:
  "\<exists>cs. calls (snd (get_network_info service project_id region w)) = calls w @ cs"
proof (cases "get_network_info service project_id region w")
  case (Pair res w')
  show ?thesis
  proof (cases res)
    case (Inl e)
    with Pair get_network_info_Inl
    have "execute_all service (list_calls project_id region) w = (Inl e, w')" by blast
    from execute_all_Inl [OF this] Pair show ?thesis by auto
  next
    case (Inr info)
    with Pair get_network_info_Inr obtain vs where
      "execute_all service (list_calls project_id region) w = (Inr vs, w')" by blast
    from execute_all_Inr [OF this] Pair show ?thesis by auto
  qed
qed

lemma nth_record_value:
  assumes "length vs = 9" "i < 9"
  shows "snd (((k1, v1) # (k2, v2) # zip [a, b, c, d, e, f, g, h, j] vs) ! (i + 2)) = vs ! i"
  using assms by simp

subsection \<open>Output paths\<close>




lemma map_of_output_file:
  "kv \<in> set kvs \<Longrightarrow> map_of (map (\<lambda>(k, v). (f k, v)) kvs) (f (fst kv)) \<noteq> None"
  by (induction kvs) auto


subsection \<open>Report and persistence\<close>

lemma report_eq:
  "report dumps info w =
     w\<lparr>stdout := stdout w @ concat (map (\<lambda>(key, val). [key @ '':'', dumps val, ''-----'']) info)\<rparr>"
  by (induction info arbitrary: w) (auto simp: print_def)

lemma ensure_output_directory_eq:
  "ensure_output_directory w =
     (Inr (), w\<lparr>fs := (if fs w output_directory = None then (fs w)(output_directory \<mapsto> Dir)
                         else fs w)\<rparr>)"
  by (simp add: ensure_output_directory_def os_path_exists_def os_makedirs_def)

lemma write_file_Inr:
  "write_file path content files = Inr files' \<Longrightarrow> files' = files(path \<mapsto> File content)"
  by (auto simp: write_file_def Let_def split: option.splits node.splits if_splits)

lemma persist_calls: "calls (snd (persist dumps project_id region kvs w)) = calls w"
  by (induction kvs arbitrary: w)
     (auto simp: print_def split: sum.splits)

lemma persist_keeps:
  "fs w path = Some n \<Longrightarrow> fs (snd (persist dumps project_id region kvs w)) path = Some n"
proof (induction kvs arbitrary: w)
  case Nil
  then show ?case by simp
next
  case (Cons kv kvs)
  obtain k v where kv: "kv = (k, v)" by (cases kv)
  show ?case
  proof (cases "fs w (output_file project_id region k)")
    case None
    show ?thesis
    proof (cases "write_file (output_file project_id region k) (dumps v) (fs w)")
      case (Inl e)
      with None kv Cons.prems show ?thesis by (simp add: os_path_exists_def)
    next
      case (Inr files)
      from write_file_Inr [OF Inr] None Cons.prems
      have "fs (w\<lparr>fs := files\<rparr>) path = Some n" by auto
      from Cons.IH [OF this] None kv Inr show ?thesis by (simp add: os_path_exists_def)
    qed
  next
    case (Some m)
    from Cons.prems have "fs (print (''File '' @ output_file project_id region k @ '' already exists.'') w) path = Some n"
      by (simp add: print_def)
    from Cons.IH [OF this] Some kv show ?thesis by (simp add: os_path_exists_def)
  qed
qed

lemma persist_fs:
  "persist dumps project_id region kvs w = (Inr u, w') \<Longrightarrow>
     fs w' path =
       (case fs w path of
          Some n \<Rightarrow> Some n
        | None \<Rightarrow> map_option (\<lambda>v. File (dumps v))
                   (map_of (map (\<lambda>(k, v). (output_file project_id region k, v)) kvs) path))"
proof (induction kvs arbitrary: w)
  case Nil
  then show ?case by (auto split: option.splits)
next
  case (Cons kv kvs)
  obtain k v where kv: "kv = (k, v)" by (cases kv)
  show ?case
  proof (cases "fs w (output_file project_id region k)")
    case None
    with Cons.prems kv obtain files where
      wr: "write_file (output_file project_id region k) (dumps v) (fs w) = Inr files" and
      rest: "persist dumps project_id region kvs (w\<lparr>fs := files\<rparr>) = (Inr u, w')"
      by (auto simp: os_path_exists_def split: sum.splits)
    from write_file_Inr [OF wr] have files: "files = (fs w)(output_file project_id region k \<mapsto> File (dumps v))" .
    from Cons.IH [OF rest] files None kv show ?thesis
      by (auto split: option.splits)
  next
    case (Some m)
    with Cons.prems kv have
      rest: "persist dumps project_id region kvs
               (print (''File '' @ output_file project_id region k @ '' already exists.'') w) = (Inr u, w')"
      by (simp add: os_path_exists_def)
    from Cons.IH [OF rest] Some kv show ?thesis
      by (auto simp: print_def split: option.splits)
  qed
qed

lemma persist_files_exist:
  assumes "persist dumps project_id region info w = (Inr u, w')" "kv \<in> set info"
  shows "fs w' (output_file project_id region (fst kv)) \<noteq> None"
  using persist_fs [OF assms(1), of "output_file project_id region (fst kv)"]
    map_of_output_file [OF assms(2), of "output_file project_id region"]
  by (auto split: option.splits)

lemma persist_stdout:
  "\<exists>ks. stdout (snd (persist dumps project_id region kvs w)) =
          stdout w @ map (\<lambda>k. ''File '' @ output_file project_id region k @ '' already exists.'') ks \<and>
        set ks \<subseteq> fst ` set kvs"
proof (induction kvs arbitrary: w)
  case Nil
  have "stdout (snd (persist dumps project_id region [] w)) =
          stdout w @ map (\<lambda>k. ''File '' @ output_file project_id region k @ '' already exists.'') [] \<and>
        set [] \<subseteq> fst ` set ([] :: network_info)" by simp
  then show ?case by blast
next
  case (Cons kv kvs)
  obtain k v where kv: "kv = (k, v)" by (cases kv)
  let ?notice = "\<lambda>k. ''File '' @ output_file project_id region k @ '' already exists.''"
  show ?case
  proof (cases "fs w (output_file project_id region k)")
    case None
    show ?thesis
    proof (cases "write_file (output_file project_id region k) (dumps v) (fs w)")
      case (Inl e)
      with None kv have "stdout (snd (persist dumps project_id region (kv # kvs) w)) =
          stdout w @ map ?notice [] \<and> set [] \<subseteq> fst ` set (kv # kvs)"
        by (simp add: os_path_exists_def)
      then show ?thesis by blast
    next
      case (Inr files)
      from Cons.IH [of "w\<lparr>fs := files\<rparr>"] obtain ks where
        "stdout (snd (persist dumps project_id region kvs (w\<lparr>fs := files\<rparr>))) =
           stdout w @ map ?notice ks" "set ks \<subseteq> fst ` set kvs"
        by auto
      with None kv Inr have "stdout (snd (persist dumps project_id region (kv # kvs) w)) =
          stdout w @ map ?notice ks \<and> set ks \<subseteq> fst ` set (kv # kvs)"
        by (auto simp: os_path_exists_def)
      then show ?thesis by blast
    qed
  next
    case (Some m)
    from Cons.IH [of "print (?notice k) w"] obtain ks where
      "stdout (snd (persist dumps project_id region kvs (print (?notice k) w))) =
         stdout w @ ?notice k # map ?notice ks" "set ks \<subseteq> fst ` set kvs"
      by (auto simp: print_def)
    with Some kv have "stdout (snd (persist dumps project_id region (kv # kvs) w)) =
          stdout w @ map ?notice (k # ks) \<and> set (k # ks) \<subseteq> fst ` set (kv # kvs)"
      by (auto simp: os_path_exists_def)
    then show ?thesis by blast
  qed
qed

lemma persist_all_exist:
  "\<forall>kv \<in> set kvs. fs w (output_file project_id region (fst kv)) \<noteq> None \<Longrightarrow>
     persist dumps project_id region kvs w =
       (Inr (), w\<lparr>stdout := stdout w @
          map (\<lambda>kv. ''File '' @ output_file project_id region (fst kv) @ '' already exists.'') kvs\<rparr>)"
proof (induction kvs arbitrary: w)
  case Nil
  then show ?case by simp
next
  case (Cons kv kvs)
  obtain k v where kv: "kv = (k, v)" by (cases kv)
  let ?w = "print (''File '' @ output_file project_id region k @ '' already exists.'') w"
  from Cons.prems have "\<forall>kv \<in> set kvs. fs ?w (output_file project_id region (fst kv)) \<noteq> None"
    by (simp add: print_def)
  from Cons.IH [OF this] Cons.prems kv show ?case
    by (simp add: os_path_exists_def print_def)
qed

subsection \<open>One pair\<close>

lemma process_pair_invalid:
  "check_region service project_id region w = (Inr False, w1) \<Longrightarrow>
     process_pair service dumps verbose project_id region w =
       (Exit 1, print (''The region '' @ region @ '' is not valid.'') w1)"
  by (simp add: process_pair_def)

lemma process_pair_check_raises:
  "check_region service project_id region w = (Inl e, w1) \<Longrightarrow>
     process_pair service dumps verbose project_id region w = (Raised e, w1)"
  by (simp add: process_pair_def)

lemma process_pair_collect_raises:
  "check_region service project_id region w = (Inr True, w1) \<Longrightarrow>
   get_network_info service project_id region w1 = (Inl e, w2) \<Longrightarrow>
     process_pair service dumps verbose project_id region w = (Raised e, w2)"
  by (simp add: process_pair_def)

lemma process_pair_collected:
  "check_region service project_id region w = (Inr True, w1) \<Longrightarrow>
   get_network_info service project_id region w1 = (Inr info, w2) \<Longrightarrow>
     process_pair service dumps verbose project_id region w =
       (case persist dumps project_id region info
               ((if verbose then report dumps info w2 else w2)
                  \<lparr>fs := (if fs w2 output_directory = None then (fs w2)(output_directory \<mapsto> Dir)
                           else fs w2)\<rparr>) of
          (Inl e, w3) \<Rightarrow> (Raised e, w3)
        | (Inr u, w3) \<Rightarrow> (Completed, w3))"
  by (simp add: process_pair_def and_then_def ensure_output_directory_eq report_eq
      split: sum.splits prod.splits)

lemma process_pair_collected_world:
  assumes "check_region service project_id region w = (Inr True, w1)"
      and "get_network_info service project_id region w1 = (Inr info, w2)"
  shows "snd (process_pair service dumps verbose project_id region w) =
           snd (persist dumps project_id region info
                  ((if verbose then report dumps info w2 else w2)
                     \<lparr>fs := (if fs w2 output_directory = None
                              then (fs w2)(output_directory \<mapsto> Dir) else fs w2)\<rparr>))"
  unfolding process_pair_collected [OF assms] by (simp split: prod.splits sum.splits)

lemma process_pair_outcomes:
  obtains
    (check_raises) e w1 where "check_region service project_id region w = (Inl e, w1)"
  | (invalid) w1 where "check_region service project_id region w = (Inr False, w1)"
  | (collect_raises) w1 e w2 where "check_region service project_id region w = (Inr True, w1)"
      "get_network_info service project_id region w1 = (Inl e, w2)"
  | (collected) w1 info w2 where "check_region service project_id region w = (Inr True, w1)"
      "get_network_info service project_id region w1 = (Inr info, w2)"
proof (cases "check_region service project_id region w")
  case (Pair res w1)
  show ?thesis
  proof (cases res)
    case (Inl e)
    with Pair check_raises show ?thesis by auto
  next
    case (Inr b)
    show ?thesis
    proof (cases b)
      case False
      with Pair Inr invalid show ?thesis by auto
    next
      case True
      show ?thesis
      proof (cases "get_network_info service project_id region w1")
        case p2: (Pair res2 w2)
        show ?thesis
        proof (cases res2)
          case (Inl e)
          with Pair Inr True p2 collect_raises show ?thesis by auto
        next
          case inr2: (Inr info)
          with Pair Inr True p2 collected show ?thesis by auto
        qed
      qed
    qed
  qed
qed

lemma process_pair_fs_changed:
  assumes "fs (snd (process_pair service dumps verbose project_id region w)) \<noteq> fs w"
  shows "\<exists>w1 info w2. check_region service project_id region w = (Inr True, w1) \<and>
           get_network_info service project_id region w1 = (Inr info, w2)"
proof (cases rule: process_pair_outcomes [of service project_id region w])
  case (check_raises e w1)
  from process_pair_check_raises [OF this] world_after_check [OF check_raises] assms
  show ?thesis by simp
next
  case (invalid w1)
  from process_pair_invalid [OF this] world_after_check [OF invalid] assms
  show ?thesis by (simp add: print_def)
next
  case (collect_raises w1 e w2)
  from process_pair_collect_raises [OF this] world_after_check [OF collect_raises(1)]
    world_after_collect [OF collect_raises(2)] assms
  show ?thesis by simp
next
  case (collected w1 info w2)
  then show ?thesis by blast
qed

lemma process_pair_keeps:
  assumes "fs w path = Some n"
  shows "fs (snd (process_pair service dumps verbose project_id region w)) path = Some n"
proof (cases "fs (snd (process_pair service dumps verbose project_id region w)) = fs w")
  case True
  with assms show ?thesis by simp
next
  case False
  from process_pair_fs_changed [OF False] obtain w1 info w2 where
    c: "check_region service project_id region w = (Inr True, w1)" and
    g: "get_network_info service project_id region w1 = (Inr info, w2)"
    by blast
  let ?w = "(if verbose then report dumps info w2 else w2)
              \<lparr>fs := (if fs w2 output_directory = None then (fs w2)(output_directory \<mapsto> Dir)
                       else fs w2)\<rparr>"
  from world_after_check [OF c] world_after_collect [OF g] assms
  have "fs ?w path = Some n" by auto
  then have "fs (snd (persist dumps project_id region info ?w)) path = Some n"
    by (rule persist_keeps)
  moreover have "snd (process_pair service dumps verbose project_id region w) =
      snd (persist dumps project_id region info ?w)"
    unfolding process_pair_collected [OF c g] by (simp split: prod.splits sum.splits)
  ultimately show ?thesis by simp
qed

lemma process_pair_calls:
  "\<exists>cs. calls (snd (process_pair service dumps verbose project_id region w)) =
          calls w @ RegionsList project_id # cs"
proof (cases rule: process_pair_outcomes [of service project_id region w])
  case (check_raises e w1)
  from process_pair_check_raises [OF this] world_after_check [OF check_raises]
  show ?thesis by simp
next
  case (invalid w1)
  from process_pair_invalid [OF this] world_after_check [OF invalid]
  show ?thesis by (simp add: print_def)
next
  case (collect_raises w1 e w2)
  from get_network_info_calls [of service project_id region w1] collect_raises(2)
  obtain cs where "calls w2 = calls w1 @ cs" by auto
  with process_pair_collect_raises [OF collect_raises] world_after_check [OF collect_raises(1)]
  show ?thesis by simp
next
  case (collected w1 info w2)
  from get_network_info_calls [of service project_id region w1] collected(2)
  obtain cs where "calls w2 = calls w1 @ cs" by auto
  moreover have "calls (snd (process_pair service dumps verbose project_id region w)) = calls w2"
    unfolding process_pair_collected_world [OF collected] persist_calls
    by (simp add: report_eq)
  ultimately show ?thesis using world_after_check [OF collected(1)] by simp
qed

subsection \<open>The loops\<close>

lemma region_loop_keeps:
  "fs w path = Some n \<Longrightarrow>
     fs (snd (region_loop service dumps verbose project_id regions w)) path = Some n"
proof (induction regions arbitrary: w)
  case Nil
  then show ?case by simp
next
  case (Cons region regions)
  obtain out w' where pp: "process_pair service dumps verbose project_id region w = (out, w')"
    by (cases "process_pair service dumps verbose project_id region w")
  with process_pair_keeps [OF Cons.prems, of service dumps verbose project_id region]
  have keep: "fs w' path = Some n" by simp
  show ?case
  proof (cases out)
    case Completed
    with pp Cons.IH [OF keep] show ?thesis by simp
  next
    case (Exit k)
    with pp keep show ?thesis by simp
  next
    case (Raised e)
    with pp keep show ?thesis by simp
  qed
qed

lemma project_loop_keeps:
  "fs w path = Some n \<Longrightarrow>
     fs (snd (project_loop service dumps verbose project_ids regions w)) path = Some n"
proof (induction project_ids arbitrary: w)
  case Nil
  then show ?case by simp
next
  case (Cons project_id project_ids)
  obtain out w' where rl: "region_loop service dumps verbose project_id regions w = (out, w')"
    by (cases "region_loop service dumps verbose project_id regions w")
  with region_loop_keeps [OF Cons.prems, of service dumps verbose project_id regions]
  have keep: "fs w' path = Some n" by simp
  show ?case
  proof (cases out)
    case Completed
    with rl Cons.IH [OF keep] show ?thesis by simp
  next
    case (Exit k)
    with rl keep show ?thesis by simp
  next
    case (Raised e)
    with rl keep show ?thesis by simp
  qed
qed

lemma main_keeps:
  "fs w path = Some n \<Longrightarrow> fs (snd (main auth dumps a w)) path = Some n"
  by (cases auth) (simp_all add: main_def project_loop_keeps)

lemma main_first_pair:
  assumes "py_split CHR '','' (arg_project a) = project_id # ps"
      and "py_split CHR '','' (arg_region a) = region # rs"
      and "process_pair service dumps (arg_verbose a) project_id region w = (out, w')"
      and "out \<noteq> Completed"
  shows "main (Inr service) dumps a w = (out, w')"
  using assms by (cases out) (simp_all add: main_def)

lemma region_loop_append:
  "region_loop service dumps verbose project_id (rs @ rs') w =
     (case region_loop service dumps verbose project_id rs w of
        (Completed, w') \<Rightarrow> region_loop service dumps verbose project_id rs' w'
      | (out, w') \<Rightarrow> (out, w'))"
  by (induction rs arbitrary: w) (auto split: prod.splits outcome.splits)

lemma project_loop_append:
  "project_loop service dumps verbose (ps @ ps') regions w =
     (case project_loop service dumps verbose ps regions w of
        (Completed, w') \<Rightarrow> project_loop service dumps verbose ps' regions w'
      | (out, w') \<Rightarrow> (out, w'))"
  by (induction ps arbitrary: w) (auto split: prod.splits outcome.splits)

lemma region_loop_calls:
  "\<exists>cs. calls (snd (region_loop service dumps verbose project_id regions w)) = calls w @ cs"
proof (induction regions arbitrary: w)
  case Nil
  show ?case by simp
next
  case (Cons region regions)
  obtain out w' where pp: "process_pair service dumps verbose project_id region w = (out, w')"
    by (cases "process_pair service dumps verbose project_id region w")
  with process_pair_calls [of service dumps verbose project_id region w]
  obtain cs where cs: "calls w' = calls w @ cs" by auto
  show ?case
  proof (cases out)
    case Completed
    from Cons.IH [of w'] obtain cs' where
      "calls (snd (region_loop service dumps verbose project_id regions w')) = calls w' @ cs'"
      by blast
    with pp cs Completed show ?thesis by simp
  next
    case (Exit k)
    with pp cs show ?thesis by simp
  next
    case (Raised e)
    with pp cs show ?thesis by simp
  qed
qed

lemma project_loop_calls:
  "\<exists>cs. calls (snd (project_loop service dumps verbose project_ids regions w)) = calls w @ cs"
proof (induction project_ids arbitrary: w)
  case Nil
  show ?case by simp
next
  case (Cons project_id project_ids)
  obtain out w' where rl: "region_loop service dumps verbose project_id regions w = (out, w')"
    by (cases "region_loop service dumps verbose project_id regions w")
  with region_loop_calls [of service dumps verbose project_id regions w]
  obtain cs where cs: "calls w' = calls w @ cs" by auto
  show ?case
  proof (cases out)
    case Completed
    from Cons.IH [of w'] obtain cs' where
      "calls (snd (project_loop service dumps verbose project_ids regions w')) = calls w' @ cs'"
      by blast
    with rl cs Completed show ?thesis by simp
  next
    case (Exit k)
    with rl cs show ?thesis by simp
  next
    case (Raised e)
    with rl cs show ?thesis by simp
  qed
qed

lemma main_reaches:
  assumes "py_split CHR '','' (arg_project a) = ps @ project_id # ps'"
      and "py_split CHR '','' (arg_region a) = rs @ region # rs'"
      and "project_loop service dumps (arg_verbose a) ps (rs @ region # rs') w = (Completed, w1)"
      and "region_loop service dumps (arg_verbose a) project_id rs w1 = (Completed, w2)"
  shows "main (Inr service) dumps a w =
           (case process_pair service dumps (arg_verbose a) project_id region w2 of
              (Completed, w3) \<Rightarrow>
                (case region_loop service dumps (arg_verbose a) project_id rs' w3 of
                   (Completed, w4) \<Rightarrow>
                     project_loop service dumps (arg_verbose a) ps' (rs @ region # rs') w4
                 | (out, w4) \<Rightarrow> (out, w4))
            | (out, w3) \<Rightarrow> (out, w3))"
  using assms
  by (simp add: main_def project_loop_append region_loop_append
      split: prod.splits outcome.splits)

subsection \<open>The example pair, run once\<close>

lemmas demo_run_defs =
  main_def process_pair_def check_region_def get_network_info_def and_then_def
  execute_def lift_def return_def demo_service_def demo_regions_def
  ensure_output_directory_def os_path_exists_def os_makedirs_def output_directory_def
  output_file_def os_path_join_def write_file_def print_def

lemma demo_pair_run:
  "process_pair demo_service demo_dumps False ''demo-proj'' ''us-central1'' demo_world =
     (Completed,
      \<lparr>calls = RegionsList ''demo-proj'' # list_calls ''demo-proj'' ''us-central1'',
       stdout = [],
       fs = [''output'' \<mapsto> Dir,
             ''output/demo-proj_us-central1_project.json'' \<mapsto>
               File (CHR 0x22 # ''demo-proj'' @ [CHR 0x22]),
             ''output/demo-proj_us-central1_region.json'' \<mapsto>
               File (CHR 0x22 # ''us-central1'' @ [CHR 0x22]),
             ''output/demo-proj_us-central1_vpcs.json'' \<mapsto> File ''{...}'',
             ''output/demo-proj_us-central1_subnetworks.json'' \<mapsto> File ''{}'',
             ''output/demo-proj_us-central1_routes.json'' \<mapsto> File ''{}'',
             ''output/demo-proj_us-central1_interconnects.json'' \<mapsto> File ''{}'',
             ''output/demo-proj_us-central1_lan_interfaces.json'' \<mapsto> File ''{}'',
             ''output/demo-proj_us-central1_vpn_gateways.json'' \<mapsto> File ''{}'',
             ''output/demo-proj_us-central1_external_gateways.json'' \<mapsto> File ''{}'',
             ''output/demo-proj_us-central1_vpn_tunnels.json'' \<mapsto> File ''{}'',
             ''output/demo-proj_us-central1_routers.json'' \<mapsto> File ''{}'']\<rparr>)"
  by (simp add: demo_run_defs demo_world_def list_calls_def)

section \<open>Properties of the program\<close>

subsection \<open>Region validation\<close>

text \<open>
  Claim C6, as the code has it. When the list call answers with a body whose \<open>items\<close> is
  a list of entries that each have a \<open>name\<close>, \<^verbatim>\<open>check_region\<close> sends that one request
  and returns a boolean: \<open>True\<close> if and only if some entry's name is exactly the requested
  region string. Whenever it returns \<open>True\<close>, an entry of that name stands in the listing.
  (Outside that precondition the function may raise; see the counterexample.)
\<close>

theorem check_region_scans_listing:
  "(service (calls w) (RegionsList project_id) = Inr available_regions \<and>
    py_getitem available_regions ''items'' = Inr (JArr entries) \<and>
    (\<forall>e \<in> set entries. \<exists>n. py_getitem e ''name'' = Inr n)
    \<longrightarrow> check_region service project_id region w =
          (Inr (\<exists>e \<in> set entries. py_getitem e ''name'' = Inr (JStr region)),
           w\<lparr>calls := calls w @ [RegionsList project_id]\<rparr>))
   \<and> (fst (check_region service project_id region w) = Inr True
    \<longrightarrow> (\<exists>available_regions items entries.
           service (calls w) (RegionsList project_id) = Inr available_regions \<and>
           py_getitem available_regions ''items'' = Inr items \<and>
           py_iter items = Inr entries \<and>
           (\<exists>e \<in> set entries. py_getitem e ''name'' = Inr (JStr region))))"
proof (intro conjI impI)
  assume h: "service (calls w) (RegionsList project_id) = Inr available_regions \<and>
    py_getitem available_regions ''items'' = Inr (JArr entries) \<and>
    (\<forall>e \<in> set entries. \<exists>n. py_getitem e ''name'' = Inr n)"
  then have "fst (check_region service project_id region w) =
      Inr (\<exists>e \<in> set entries. py_getitem e ''name'' = Inr (JStr region))"
    by (simp add: check_region_result scan_regions_named)
  then show "check_region service project_id region w =
          (Inr (\<exists>e \<in> set entries. py_getitem e ''name'' = Inr (JStr region)),
           w\<lparr>calls := calls w @ [RegionsList project_id]\<rparr>)"
    by (simp add: prod_eq_iff check_region_world)
next
  assume "fst (check_region service project_id region w) = Inr True"
  then show "\<exists>available_regions items entries.
           service (calls w) (RegionsList project_id) = Inr available_regions \<and>
           py_getitem available_regions ''items'' = Inr items \<and>
           py_iter items = Inr entries \<and>
           (\<exists>e \<in> set entries. py_getitem e ''name'' = Inr (JStr region))"
    by (auto simp: check_region_result split: sum.splits dest: scan_regions_True)
qed

text \<open>
  The theorem at the example project: \<open>europe-west1\<close> is a region of it,
  \<open>europe-west\<close> (a proper prefix of a name) is not.
\<close>

theorem check_region_scans_listing_witness:
  "demo_service (calls demo_world) (RegionsList ''demo-proj'') = Inr demo_regions \<and>
   py_getitem demo_regions ''items'' =
     Inr (JArr [JObj [(''name'', JStr ''us-central1'')], JObj [(''name'', JStr ''europe-west1'')]]) \<and>
   py_getitem (JObj [(''name'', JStr ''us-central1'')]) ''name'' = Inr (JStr ''us-central1'') \<and>
   py_getitem (JObj [(''name'', JStr ''europe-west1'')]) ''name'' = Inr (JStr ''europe-west1'') \<and>
   check_region demo_service ''demo-proj'' ''europe-west1'' demo_world =
     (Inr True, demo_world\<lparr>calls := [RegionsList ''demo-proj'']\<rparr>) \<and>
   check_region demo_service ''demo-proj'' ''europe-west'' demo_world =
     (Inr False, demo_world\<lparr>calls := [RegionsList ''demo-proj'']\<rparr>)"
proof -
  let ?entries = "[JObj [(''name'', JStr ''us-central1'')], JObj [(''name'', JStr ''europe-west1'')]]"
  have h: "demo_service (calls demo_world) (RegionsList ''demo-proj'') = Inr demo_regions \<and>
      py_getitem demo_regions ''items'' = Inr (JArr ?entries) \<and>
      (\<forall>e \<in> set ?entries. \<exists>n. py_getitem e ''name'' = Inr n)"
    by (simp add: demo_service_def demo_regions_def)
  from h check_region_scans_listing [where service = demo_service and w = demo_world
      and project_id = "''demo-proj''" and available_regions = demo_regions
      and entries = ?entries and region = "''europe-west1''"]
  have a: "check_region demo_service ''demo-proj'' ''europe-west1'' demo_world =
     (Inr True, demo_world\<lparr>calls := [RegionsList ''demo-proj'']\<rparr>)"
    by (simp add: demo_world_def)
  from h check_region_scans_listing [where service = demo_service and w = demo_world
      and project_id = "''demo-proj''" and available_regions = demo_regions
      and entries = ?entries and region = "''europe-west''"]
  have b: "check_region demo_service ''demo-proj'' ''europe-west'' demo_world =
     (Inr False, demo_world\<lparr>calls := [RegionsList ''demo-proj'']\<rparr>)"
    by (simp add: demo_world_def)
  from h a b show ?thesis by simp
qed

text \<open>
  Claim C6 as it is written promises a boolean in all cases. A listing without the key
  \<open>items\<close> is a case where no entry carries the requested name, and there the function
  returns no boolean: the subscript raises \<^verbatim>\<open>KeyError\<close>.
\<close>

theorem check_region_boolean_counterexample:
  "check_region demo_service ''empty-proj'' ''us-central1'' demo_world =
     (Inl (KeyError ''items''), demo_world\<lparr>calls := [RegionsList ''empty-proj'']\<rparr>)"
  by (simp add: check_region_def and_then_def execute_def lift_def demo_service_def demo_world_def)

text \<open>
  Claim C8. When the body of the region listing is an object without the key \<open>items\<close>,
  \<^verbatim>\<open>check_region\<close> raises \<^verbatim>\<open>KeyError('items')\<close> instead of returning \<open>False\<close>; more
  generally, whatever exception the subscript \<^verbatim>\<open>['items']\<close> raises on the body is raised
  by \<^verbatim>\<open>check_region\<close>. And whenever \<^verbatim>\<open>check_region\<close> returns a boolean, the list call
  had answered with a body that contains \<open>items\<close>.
\<close>

theorem check_region_missing_items:
  "(service (calls w) (RegionsList project_id) = Inr (JObj kvs) \<and> map_of kvs ''items'' = None
    \<longrightarrow> check_region service project_id region w =
          (Inl (KeyError ''items''), w\<lparr>calls := calls w @ [RegionsList project_id]\<rparr>)) \<and>
   (service (calls w) (RegionsList project_id) = Inr available_regions \<and>
    py_getitem available_regions ''items'' = Inl e
    \<longrightarrow> check_region service project_id region w =
          (Inl e, w\<lparr>calls := calls w @ [RegionsList project_id]\<rparr>)) \<and>
   (fst (check_region service project_id region w) = Inr b
    \<longrightarrow> (\<exists>available_regions items.
           service (calls w) (RegionsList project_id) = Inr available_regions \<and>
           py_getitem available_regions ''items'' = Inr items))"
proof (intro conjI impI)
  assume "service (calls w) (RegionsList project_id) = Inr (JObj kvs) \<and> map_of kvs ''items'' = None"
  then have "fst (check_region service project_id region w) = Inl (KeyError ''items'')"
    by (simp add: check_region_result)
  then show "check_region service project_id region w =
          (Inl (KeyError ''items''), w\<lparr>calls := calls w @ [RegionsList project_id]\<rparr>)"
    by (simp add: prod_eq_iff check_region_world)
next
  assume "service (calls w) (RegionsList project_id) = Inr available_regions \<and>
    py_getitem available_regions ''items'' = Inl e"
  then have "fst (check_region service project_id region w) = Inl e"
    by (simp add: check_region_result)
  then show "check_region service project_id region w =
          (Inl e, w\<lparr>calls := calls w @ [RegionsList project_id]\<rparr>)"
    by (simp add: prod_eq_iff check_region_world)
next
  assume "fst (check_region service project_id region w) = Inr b"
  then show "\<exists>available_regions items.
           service (calls w) (RegionsList project_id) = Inr available_regions \<and>
           py_getitem available_regions ''items'' = Inr items"
    by (auto simp: check_region_result split: sum.splits)
qed

text \<open>
  The theorem at the example projects: \<open>empty-proj\<close> for the first half, \<open>demo-proj\<close>
  (where the function returns \<open>False\<close>) for the second.
\<close>

theorem check_region_missing_items_witness:
  "demo_service (calls demo_world) (RegionsList ''empty-proj'') =
     Inr (JObj [(''kind'', JStr ''compute#regionList'')]) \<and>
   map_of [(''kind'', JStr ''compute#regionList'')] ''items'' = None \<and>
   check_region demo_service ''empty-proj'' ''moon-base1'' demo_world =
     (Inl (KeyError ''items''), demo_world\<lparr>calls := [RegionsList ''empty-proj'']\<rparr>) \<and>
   fst (check_region demo_service ''demo-proj'' ''moon-base1'' demo_world) = Inr False \<and>
   demo_service (calls demo_world) (RegionsList ''demo-proj'') = Inr demo_regions \<and>
   py_getitem demo_regions ''items'' =
     Inr (JArr [JObj [(''name'', JStr ''us-central1'')], JObj [(''name'', JStr ''europe-west1'')]])"
proof -
  have h: "demo_service (calls demo_world) (RegionsList ''empty-proj'') =
      Inr (JObj [(''kind'', JStr ''compute#regionList'')]) \<and>
      map_of [(''kind'', JStr ''compute#regionList'')] ''items'' = None"
    by (simp add: demo_service_def)
  from h check_region_missing_items [where service = demo_service and w = demo_world
      and project_id = "''empty-proj''" and kvs = "[(''kind'', JStr ''compute#regionList'')]"
      and region = "''moon-base1''"]
  have a: "check_region demo_service ''empty-proj'' ''moon-base1'' demo_world =
     (Inl (KeyError ''items''), demo_world\<lparr>calls := [RegionsList ''empty-proj'']\<rparr>)"
    by (simp add: demo_world_def)
  have b: "fst (check_region demo_service ''demo-proj'' ''moon-base1'' demo_world) = Inr False"
    by (simp add: check_region_result demo_service_def demo_regions_def)
  from b check_region_missing_items [where service = demo_service and project_id = "''demo-proj''"
      and region = "''moon-base1''" and w = demo_world and b = False]
  have c: "\<exists>available_regions items.
      demo_service (calls demo_world) (RegionsList ''demo-proj'') = Inr available_regions \<and>
      py_getitem available_regions ''items'' = Inr items"
    by blast
  have d: "demo_service (calls demo_world) (RegionsList ''demo-proj'') = Inr demo_regions \<and>
      py_getitem demo_regions ''items'' =
        Inr (JArr [JObj [(''name'', JStr ''us-central1'')], JObj [(''name'', JStr ''europe-west1'')]])"
    by (simp add: demo_service_def demo_regions_def)
  from h a b c d show ?thesis by simp
qed
subsection \<open>Resource collection\<close>

text \<open>
  Claim C1, as the code has it. Whenever \<^verbatim>\<open>get_network_info\<close> returns a record, its keys
  are, in this order, \<open>project\<close>, \<open>region\<close> and the nine resource keys \<open>vpcs\<close>,
  \<open>subnetworks\<close>, \<open>routes\<close>, \<open>interconnects\<close>, \<open>lan_interfaces\<close>, \<open>vpn_gateways\<close>,
  \<open>external_gateways\<close>, \<open>vpn_tunnels\<close>, \<open>routers\<close>: the same eleven keys for every pair,
  none added, removed or renamed. \<open>project\<close> and \<open>region\<close> hold the identifiers.
\<close>

theorem get_network_info_keys:
  assumes "get_network_info service project_id region w = (Inr info, w')"
  shows "map fst info =
           [''project'', ''region'', ''vpcs'', ''subnetworks'', ''routes'', ''interconnects'',
            ''lan_interfaces'', ''vpn_gateways'', ''external_gateways'', ''vpn_tunnels'',
            ''routers''] \<and>
         resource_keys info =
           [''vpcs'', ''subnetworks'', ''routes'', ''interconnects'', ''lan_interfaces'',
            ''vpn_gateways'', ''external_gateways'', ''vpn_tunnels'', ''routers''] \<and>
         length (resource_keys info) = 9 \<and>
         map_of info ''project'' = Some (JStr project_id) \<and>
         map_of info ''region'' = Some (JStr region)"
proof -
  note keys = network_info_key_list [OF assms]
  then have "resource_keys info =
           [''vpcs'', ''subnetworks'', ''routes'', ''interconnects'', ''lan_interfaces'',
            ''vpn_gateways'', ''external_gateways'', ''vpn_tunnels'', ''routers'']"
    by (simp add: resource_keys_def)
  moreover from get_network_info_Inr [OF assms]
  have "map_of info ''project'' = Some (JStr project_id) \<and>
        map_of info ''region'' = Some (JStr region)"
    by auto
  ultimately show ?thesis using keys by simp
qed

text \<open>The theorem at the example project and the region \<open>us-central1\<close>.\<close>

theorem get_network_info_keys_witness:
  "get_network_info demo_service ''demo-proj'' ''us-central1'' demo_world =
     (Inr [(''project'', JStr ''demo-proj''),
           (''region'', JStr ''us-central1''),
           (''vpcs'', JObj [(''items'', JArr [JObj [(''name'', JStr ''default'')]])]),
           (''subnetworks'', JObj []),
           (''routes'', JObj []),
           (''interconnects'', JObj []),
           (''lan_interfaces'', JObj []),
           (''vpn_gateways'', JObj []),
           (''external_gateways'', JObj []),
           (''vpn_tunnels'', JObj []),
           (''routers'', JObj [])],
      demo_world\<lparr>calls := list_calls ''demo-proj'' ''us-central1''\<rparr>) \<and>
   length (resource_keys
     [(''project'', JStr ''demo-proj''),
      (''region'', JStr ''us-central1''),
      (''vpcs'', JObj [(''items'', JArr [JObj [(''name'', JStr ''default'')]])]),
      (''subnetworks'', JObj []),
      (''routes'', JObj []),
      (''interconnects'', JObj []),
      (''lan_interfaces'', JObj []),
      (''vpn_gateways'', JObj []),
      (''external_gateways'', JObj []),
      (''vpn_tunnels'', JObj []),
      (''routers'', JObj [])]) = 9"
proof -
  have run: "get_network_info demo_service ''demo-proj'' ''us-central1'' demo_world =
     (Inr [(''project'', JStr ''demo-proj''),
           (''region'', JStr ''us-central1''),
           (''vpcs'', JObj [(''items'', JArr [JObj [(''name'', JStr ''default'')]])]),
           (''subnetworks'', JObj []),
           (''routes'', JObj []),
           (''interconnects'', JObj []),
           (''lan_interfaces'', JObj []),
           (''vpn_gateways'', JObj []),
           (''external_gateways'', JObj []),
           (''vpn_tunnels'', JObj []),
           (''routers'', JObj [])],
      demo_world\<lparr>calls := list_calls ''demo-proj'' ''us-central1''\<rparr>)"
    by (simp add: get_network_info_def and_then_def execute_def return_def demo_service_def
        demo_world_def list_calls_def)
  from get_network_info_keys [OF run] run show ?thesis by blast
qed

text \<open>
  Claim C1 as it is written counts ten resource keys. At the example project and the
  region \<open>europe-west1\<close> the record has nine keys besides \<open>project\<close> and \<open>region\<close>.
\<close>

theorem get_network_info_keys_counterexample:
  "map_sum id (\<lambda>info. length (resource_keys info))
     (fst (get_network_info demo_service ''demo-proj'' ''europe-west1'' demo_world)) = Inr 9 \<and>
   map_sum id (\<lambda>info. length (resource_keys info))
     (fst (get_network_info demo_service ''demo-proj'' ''europe-west1'' demo_world)) \<noteq> Inr 10"
  by (simp add: get_network_info_def and_then_def execute_def return_def demo_service_def
      demo_world_def resource_keys_def)

text \<open>
  Claim C5, as the code has it. The collector sends nine list requests one after the other:
  networks, routes, interconnects and external VPN gateways with the project alone;
  subnetworks, region backend services, VPN gateways, VPN tunnels and routers with the
  project and the region. When it returns a record, exactly these nine requests were
  logged, in program order, and the value of the \<open>i\<close>-th resource key is the answer to the
  \<open>i\<close>-th request. When it raises, the requests logged are a proper initial part of the
  nine, up to and including the one that raised, and the exception is the one of that
  request.
\<close>

theorem get_network_info_list_calls:
  "list_calls project_id region =
     [NetworksList project_id, SubnetworksList project_id region, RoutesList project_id,
      InterconnectsList project_id, RegionBackendServicesList project_id region,
      VpnGatewaysList project_id region, ExternalVpnGatewaysList project_id,
      VpnTunnelsList project_id region, RoutersList project_id region] \<and>
   (get_network_info service project_id region w = (Inr info, w') \<longrightarrow>
      calls w' = calls w @ list_calls project_id region \<and>
      (\<forall>i<9. service (calls w @ take i (list_calls project_id region))
                (list_calls project_id region ! i) = Inr (snd (info ! (i + 2))))) \<and>
   (get_network_info service project_id region w = (Inl e, w') \<longrightarrow>
      (\<exists>n<9. calls w' = calls w @ take (Suc n) (list_calls project_id region) \<and>
              service (calls w @ take n (list_calls project_id region))
                (list_calls project_id region ! n) = Inl e \<and>
              (\<forall>i<n. \<exists>v. service (calls w @ take i (list_calls project_id region))
                              (list_calls project_id region ! i) = Inr v)))"
proof (intro conjI impI)
  show "list_calls project_id region =
     [NetworksList project_id, SubnetworksList project_id region, RoutesList project_id,
      InterconnectsList project_id, RegionBackendServicesList project_id region,
      VpnGatewaysList project_id region, ExternalVpnGatewaysList project_id,
      VpnTunnelsList project_id region, RoutersList project_id region]"
    by (simp add: list_calls_def)
next
  assume ok: "get_network_info service project_id region w = (Inr info, w')"
  from get_network_info_Inr [OF ok] obtain vs where
    vs: "execute_all service (list_calls project_id region) w = (Inr vs, w')" and
    len: "length vs = 9" and
    info: "info = (''project'', JStr project_id) # (''region'', JStr region) #
                zip [''vpcs'', ''subnetworks'', ''routes'', ''interconnects'', ''lan_interfaces'',
                     ''vpn_gateways'', ''external_gateways'', ''vpn_tunnels'', ''routers''] vs"
    by blast
  note all = execute_all_Inr [OF vs]
  from all show "calls w' = calls w @ list_calls project_id region" by simp
  have nine: "length (list_calls project_id region) = 9" by (simp add: list_calls_def)
  show "\<forall>i<9. service (calls w @ take i (list_calls project_id region))
                (list_calls project_id region ! i) = Inr (snd (info ! (i + 2)))"
  proof (intro allI impI)
    fix i :: nat assume i: "i < 9"
    with all nine have "service (calls w @ take i (list_calls project_id region))
                (list_calls project_id region ! i) = Inr (vs ! i)"
      by simp
    moreover have "snd (info ! (i + 2)) = vs ! i"
      unfolding info using len i by (rule nth_record_value)
    ultimately show "service (calls w @ take i (list_calls project_id region))
                (list_calls project_id region ! i) = Inr (snd (info ! (i + 2)))"
      by simp
  qed
next
  assume "get_network_info service project_id region w = (Inl e, w')"
  then have "execute_all service (list_calls project_id region) w = (Inl e, w')"
    by (rule get_network_info_Inl)
  from execute_all_Inl [OF this] obtain n where
    "n < length (list_calls project_id region)"
    "w' = w\<lparr>calls := calls w @ take (Suc n) (list_calls project_id region)\<rparr>"
    "service (calls w @ take n (list_calls project_id region))
       (list_calls project_id region ! n) = Inl e"
    "\<forall>i<n. \<exists>v. service (calls w @ take i (list_calls project_id region))
                   (list_calls project_id region ! i) = Inr v"
    by blast
  moreover have "length (list_calls project_id region) = 9" by (simp add: list_calls_def)
  ultimately have "n < 9 \<and> calls w' = calls w @ take (Suc n) (list_calls project_id region) \<and>
              service (calls w @ take n (list_calls project_id region))
                (list_calls project_id region ! n) = Inl e \<and>
              (\<forall>i<n. \<exists>v. service (calls w @ take i (list_calls project_id region))
                              (list_calls project_id region ! i) = Inr v)"
    by simp
  then show "\<exists>n<9. calls w' = calls w @ take (Suc n) (list_calls project_id region) \<and>
              service (calls w @ take n (list_calls project_id region))
                (list_calls project_id region ! n) = Inl e \<and>
              (\<forall>i<n. \<exists>v. service (calls w @ take i (list_calls project_id region))
                              (list_calls project_id region ! i) = Inr v)"
    by blast
qed

text \<open>
  The theorem at the example project (all nine requests answered) and, for the failing
  case, at a project whose routes cannot be listed (the third request raises).
\<close>

theorem get_network_info_list_calls_witness:
  "fst (get_network_info demo_service ''demo-proj'' ''us-central1'' demo_world) =
     Inr [(''project'', JStr ''demo-proj''),
          (''region'', JStr ''us-central1''),
          (''vpcs'', JObj [(''items'', JArr [JObj [(''name'', JStr ''default'')]])]),
          (''subnetworks'', JObj []),
          (''routes'', JObj []),
          (''interconnects'', JObj []),
          (''lan_interfaces'', JObj []),
          (''vpn_gateways'', JObj []),
          (''external_gateways'', JObj []),
          (''vpn_tunnels'', JObj []),
          (''routers'', JObj [])] \<and>
   calls (snd (get_network_info demo_service ''demo-proj'' ''us-central1'' demo_world)) =
     [NetworksList ''demo-proj'', SubnetworksList ''demo-proj'' ''us-central1'',
      RoutesList ''demo-proj'', InterconnectsList ''demo-proj'',
      RegionBackendServicesList ''demo-proj'' ''us-central1'',
      VpnGatewaysList ''demo-proj'' ''us-central1'', ExternalVpnGatewaysList ''demo-proj'',
      VpnTunnelsList ''demo-proj'' ''us-central1'', RoutersList ''demo-proj'' ''us-central1''] \<and>
   fst (get_network_info demo_service ''other-proj'' ''us-central1'' demo_world) =
     Inl (ApiError ''forbidden'') \<and>
   calls (snd (get_network_info demo_service ''other-proj'' ''us-central1'' demo_world)) =
     [NetworksList ''other-proj'', SubnetworksList ''other-proj'' ''us-central1'',
      RoutesList ''other-proj'']"
proof -
  obtain info w' where ok: "get_network_info demo_service ''demo-proj'' ''us-central1'' demo_world = (Inr info, w')"
    and info: "info = [(''project'', JStr ''demo-proj''),
          (''region'', JStr ''us-central1''),
          (''vpcs'', JObj [(''items'', JArr [JObj [(''name'', JStr ''default'')]])]),
          (''subnetworks'', JObj []),
          (''routes'', JObj []),
          (''interconnects'', JObj []),
          (''lan_interfaces'', JObj []),
          (''vpn_gateways'', JObj []),
          (''external_gateways'', JObj []),
          (''vpn_tunnels'', JObj []),
          (''routers'', JObj [])]"
    by (simp add: get_network_info_def and_then_def execute_def return_def demo_service_def)
  obtain w'' where bad: "get_network_info demo_service ''other-proj'' ''us-central1'' demo_world = (Inl (ApiError ''forbidden''), w'')"
    and w'': "calls w'' = [NetworksList ''other-proj'', SubnetworksList ''other-proj'' ''us-central1'',
      RoutesList ''other-proj'']"
    by (simp add: get_network_info_def and_then_def execute_def return_def demo_service_def demo_world_def)
  from ok get_network_info_list_calls [where service = demo_service and project_id = "''demo-proj''"
      and region = "''us-central1''" and w = demo_world and info = info and w' = w']
  have "calls w' = calls demo_world @
     [NetworksList ''demo-proj'', SubnetworksList ''demo-proj'' ''us-central1'',
      RoutesList ''demo-proj'', InterconnectsList ''demo-proj'',
      RegionBackendServicesList ''demo-proj'' ''us-central1'',
      VpnGatewaysList ''demo-proj'' ''us-central1'', ExternalVpnGatewaysList ''demo-proj'',
      VpnTunnelsList ''demo-proj'' ''us-central1'', RoutersList ''demo-proj'' ''us-central1'']"
    by simp
  with ok info bad w'' show ?thesis by (simp add: demo_world_def)
qed

text \<open>
  Claim C5 as it is written counts ten list calls. At the example project the collector
  sends nine.
\<close>

theorem get_network_info_list_calls_counterexample:
  "length (calls (snd (get_network_info demo_service ''demo-proj'' ''europe-west1'' demo_world))) = 9 \<and>
   length (calls (snd (get_network_info demo_service ''demo-proj'' ''europe-west1'' demo_world))) \<noteq> 10"
  by (simp add: get_network_info_def and_then_def execute_def return_def demo_service_def
      demo_world_def)

subsection \<open>The run\<close>




text \<open>
  Claim C9. Processing a pair changes the file system (the creation of the output
  directory is the first change it can make) only if the region validation of that pair
  returned \<open>True\<close> and the resource collection returned a record. Hence a run whose first
  pair fails validation (the region is invalid, or \<^verbatim>\<open>check_region\<close> raises) or whose
  first collection raises on a list call leaves the file system exactly as it was: the
  output directory is not created.
\<close>

theorem output_directory_after_collection:
  "(fs (snd (process_pair service dumps verbose project_id region w)) \<noteq> fs w \<longrightarrow>
      (\<exists>w1 info w2. check_region service project_id region w = (Inr True, w1) \<and>
         get_network_info service project_id region w1 = (Inr info, w2))) \<and>
   (py_split CHR '','' (arg_project a) = project_id # ps \<and>
    py_split CHR '','' (arg_region a) = region # rs \<and>
    (fst (check_region service project_id region w) \<noteq> Inr True \<or>
     isl (fst (get_network_info service project_id region
                 (snd (check_region service project_id region w))))) \<longrightarrow>
      fs (snd (main (Inr service) dumps a w)) = fs w)"
proof (intro conjI impI)
  assume "fs (snd (process_pair service dumps verbose project_id region w)) \<noteq> fs w"
  then show "\<exists>w1 info w2. check_region service project_id region w = (Inr True, w1) \<and>
         get_network_info service project_id region w1 = (Inr info, w2)"
    by (rule process_pair_fs_changed)
next
  assume h: "py_split CHR '','' (arg_project a) = project_id # ps \<and>
    py_split CHR '','' (arg_region a) = region # rs \<and>
    (fst (check_region service project_id region w) \<noteq> Inr True \<or>
     isl (fst (get_network_info service project_id region
                 (snd (check_region service project_id region w)))))"
  obtain out w' where pp: "process_pair service dumps (arg_verbose a) project_id region w = (out, w')"
    by (cases "process_pair service dumps (arg_verbose a) project_id region w")
  have same: "fs w' = fs w"
  proof (rule ccontr)
    assume "fs w' \<noteq> fs w"
    with pp have "fs (snd (process_pair service dumps (arg_verbose a) project_id region w)) \<noteq> fs w"
      by simp
    from process_pair_fs_changed [OF this] h show False by auto
  qed
  have "out \<noteq> Completed"
  proof
    assume "out = Completed"
    with pp h show False
      by (cases rule: process_pair_outcomes [of service project_id region w])
         (auto simp: process_pair_invalid process_pair_check_raises process_pair_collect_raises)
  qed
  with h pp main_first_pair [of a project_id ps region rs service dumps w out w']
  have "main (Inr service) dumps a w = (out, w')" by simp
  with same show "fs (snd (main (Inr service) dumps a w)) = fs w" by simp
qed

text \<open>
  The theorem at the example project, where the directory is created after validation and
  collection, and at a run that starts with a project whose routes cannot be listed.
\<close>

theorem output_directory_after_collection_witness:
  "fs (snd (process_pair demo_service demo_dumps False ''demo-proj'' ''us-central1'' demo_world))
     ''output'' = Some Dir \<and>
   fs demo_world ''output'' = None \<and>
   fst (check_region demo_service ''demo-proj'' ''us-central1'' demo_world) = Inr True \<and>
   py_split CHR '','' ''locked-proj,demo-proj'' = [''locked-proj'', ''demo-proj''] \<and>
   py_split CHR '','' ''us-central1'' = [''us-central1''] \<and>
   fst (check_region demo_service ''locked-proj'' ''us-central1'' demo_world) = Inr True \<and>
   fst (get_network_info demo_service ''locked-proj'' ''us-central1''
          (snd (check_region demo_service ''locked-proj'' ''us-central1'' demo_world))) =
     Inl (ApiError ''forbidden'') \<and>
   fs (snd (main (Inr demo_service) demo_dumps
              \<lparr>arg_project = ''locked-proj,demo-proj'', arg_region = ''us-central1'',
               arg_verbose = False\<rparr> demo_world)) = fs demo_world"
proof -
  let ?a = "\<lparr>arg_project = ''locked-proj,demo-proj'', arg_region = ''us-central1'',
               arg_verbose = False\<rparr>"
  have dir: "fs (snd (process_pair demo_service demo_dumps False ''demo-proj'' ''us-central1''
      demo_world)) ''output'' = Some Dir"
    unfolding demo_pair_run by simp
  have none: "fs demo_world ''output'' = None" by (simp add: demo_world_def)
  from dir none
  have "fs (snd (process_pair demo_service demo_dumps False ''demo-proj'' ''us-central1''
      demo_world)) \<noteq> fs demo_world"
    by auto
  with output_directory_after_collection [where service = demo_service and dumps = demo_dumps
      and verbose = False and project_id = "''demo-proj''" and region = "''us-central1''"
      and w = demo_world]
  have "\<exists>w1. check_region demo_service ''demo-proj'' ''us-central1'' demo_world = (Inr True, w1)"
    by blast
  then have ok: "fst (check_region demo_service ''demo-proj'' ''us-central1'' demo_world) = Inr True"
    by auto
  have p: "py_split CHR '','' (arg_project ?a) = ''locked-proj'' # [''demo-proj'']" by simp
  have r: "py_split CHR '','' (arg_region ?a) = ''us-central1'' # []" by simp
  have c: "fst (check_region demo_service ''locked-proj'' ''us-central1'' demo_world) = Inr True"
    by (simp add: check_region_result demo_service_def demo_regions_def)
  have g: "fst (get_network_info demo_service ''locked-proj'' ''us-central1''
          (snd (check_region demo_service ''locked-proj'' ''us-central1'' demo_world))) =
     Inl (ApiError ''forbidden'')"
    by (simp add: check_region_world get_network_info_def and_then_def execute_def return_def
        demo_service_def)
  from p r g output_directory_after_collection [where service = demo_service
      and dumps = demo_dumps and a = ?a and project_id = "''locked-proj''" and ps = "[''demo-proj'']"
      and region = "''us-central1''" and rs = "[]" and w = demo_world]
  have "fs (snd (main (Inr demo_service) demo_dumps ?a demo_world)) = fs demo_world"
    by simp
  with dir none ok p r c g show ?thesis by simp
qed

subsection \<open>Persistence\<close>

text \<open>
  Claim C4. When the persister reaches a key whose output path exists, it prints
  \<^verbatim>\<open>File {path} already exists.\<close> and goes on to the next key with the file system
  untouched. Whatever exists before the persister runs, or before a whole run of
  \<^verbatim>\<open>main\<close>, exists afterwards with the same content, however the run ends; so a second
  run (even against a changed API) leaves every file of the first run as it was. After a
  successful pass of the persister every path of the record exists, and a pass over
  paths that all exist prints one notice per key and changes nothing else.
\<close>

theorem existing_files_untouched:
  "(fs w (output_file project_id region object_type) \<noteq> None \<longrightarrow>
      persist dumps project_id region ((object_type, objects) # rest) w =
        persist dumps project_id region rest
          (w\<lparr>stdout := stdout w @
             [''File '' @ output_file project_id region object_type @ '' already exists.'']\<rparr>)) \<and>
   (fs w path = Some n \<longrightarrow> fs (snd (persist dumps project_id region info w)) path = Some n) \<and>
   (fs w path = Some n \<longrightarrow> fs (snd (main auth dumps a w)) path = Some n) \<and>
   (fs (snd (main auth dumps a w)) path = Some n \<longrightarrow>
      fs (snd (main auth' dumps' a (snd (main auth dumps a w)))) path = Some n) \<and>
   (persist dumps project_id region info w = (Inr u, w') \<longrightarrow>
      (\<forall>kv \<in> set info. fs w' (output_file project_id region (fst kv)) \<noteq> None)) \<and>
   ((\<forall>kv \<in> set info. fs w (output_file project_id region (fst kv)) \<noteq> None) \<longrightarrow>
      persist dumps project_id region info w =
        (Inr (), w\<lparr>stdout := stdout w @
           map (\<lambda>kv. ''File '' @ output_file project_id region (fst kv) @ '' already exists.'')
             info\<rparr>))"
proof (intro conjI impI)
  assume "fs w (output_file project_id region object_type) \<noteq> None"
  then show "persist dumps project_id region ((object_type, objects) # rest) w =
        persist dumps project_id region rest
          (w\<lparr>stdout := stdout w @
             [''File '' @ output_file project_id region object_type @ '' already exists.'']\<rparr>)"
    by (simp add: os_path_exists_def print_def)
next
  assume "fs w path = Some n"
  then show "fs (snd (persist dumps project_id region info w)) path = Some n"
    by (rule persist_keeps)
next
  assume "fs w path = Some n"
  then show "fs (snd (main auth dumps a w)) path = Some n"
    by (rule main_keeps)
next
  assume "fs (snd (main auth dumps a w)) path = Some n"
  then show "fs (snd (main auth' dumps' a (snd (main auth dumps a w)))) path = Some n"
    by (rule main_keeps)
next
  assume written: "persist dumps project_id region info w = (Inr u, w')"
  show "\<forall>kv \<in> set info. fs w' (output_file project_id region (fst kv)) \<noteq> None"
    using persist_files_exist [OF written] by blast
next
  assume "\<forall>kv \<in> set info. fs w (output_file project_id region (fst kv)) \<noteq> None"
  then show "persist dumps project_id region info w =
        (Inr (), w\<lparr>stdout := stdout w @
           map (\<lambda>kv. ''File '' @ output_file project_id region (fst kv) @ '' already exists.'')
             info\<rparr>)"
    by (rule persist_all_exist)
qed

text \<open>
  The theorem in a world where the file of \<open>vpcs\<close> is already there with other content:
  one run and a second run both leave it, and the notice is printed.
\<close>

theorem existing_files_untouched_witness:
  "fs stale_world ''output/demo-proj_us-central1_vpcs.json'' = Some (File ''stale'') \<and>
   output_file ''demo-proj'' ''us-central1'' ''vpcs'' = ''output/demo-proj_us-central1_vpcs.json'' \<and>
   persist demo_dumps ''demo-proj'' ''us-central1'' [(''vpcs'', JObj [])] stale_world =
     (Inr (), stale_world
        \<lparr>stdout := [''File output/demo-proj_us-central1_vpcs.json already exists.'']\<rparr>) \<and>
   fs (snd (main (Inr demo_service) demo_dumps
              \<lparr>arg_project = ''demo-proj'', arg_region = ''us-central1'', arg_verbose = False\<rparr>
              stale_world))
     ''output/demo-proj_us-central1_vpcs.json'' = Some (File ''stale'') \<and>
   fs (snd (main (Inr demo_service) demo_dumps
              \<lparr>arg_project = ''demo-proj'', arg_region = ''us-central1'', arg_verbose = False\<rparr>
              (snd (main (Inr demo_service) demo_dumps
                 \<lparr>arg_project = ''demo-proj'', arg_region = ''us-central1'', arg_verbose = False\<rparr>
                 stale_world))))
     ''output/demo-proj_us-central1_vpcs.json'' = Some (File ''stale'') \<and>
   stdout (snd (main (Inr demo_service) demo_dumps
              \<lparr>arg_project = ''demo-proj'', arg_region = ''us-central1'', arg_verbose = False\<rparr>
              stale_world)) =
     [''File output/demo-proj_us-central1_vpcs.json already exists.'']"
proof -
  let ?a = "\<lparr>arg_project = ''demo-proj'', arg_region = ''us-central1'', arg_verbose = False\<rparr>"
  let ?path = "''output/demo-proj_us-central1_vpcs.json''"
  note inst = existing_files_untouched [where w = stale_world and path = ?path
      and n = "File ''stale''" and dumps = demo_dumps and dumps' = demo_dumps
      and auth = "Inr demo_service" and auth' = "Inr demo_service" and a = ?a
      and project_id = "''demo-proj''" and region = "''us-central1''"
      and object_type = "''vpcs''" and objects = "JObj []" and rest = "[]"]
  have stale: "fs stale_world ?path = Some (File ''stale'')"
    by (simp add: stale_world_def)
  have name: "output_file ''demo-proj'' ''us-central1'' ''vpcs'' = ?path"
    by (simp add: output_file_def os_path_join_def output_directory_def)
  from stale name inst
  have step: "persist demo_dumps ''demo-proj'' ''us-central1'' [(''vpcs'', JObj [])] stale_world =
     (Inr (), stale_world
        \<lparr>stdout := [''File output/demo-proj_us-central1_vpcs.json already exists.'']\<rparr>)"
    by (simp add: stale_world_def)
  from stale inst
  have once: "fs (snd (main (Inr demo_service) demo_dumps ?a stale_world)) ?path =
      Some (File ''stale'')"
    by blast
  with inst
  have twice: "fs (snd (main (Inr demo_service) demo_dumps ?a
      (snd (main (Inr demo_service) demo_dumps ?a stale_world)))) ?path = Some (File ''stale'')"
    by blast
  have out: "stdout (snd (main (Inr demo_service) demo_dumps ?a stale_world)) =
     [''File output/demo-proj_us-central1_vpcs.json already exists.'']"
    by (simp add: demo_run_defs stale_world_def)
  from stale name step once twice out show ?thesis by simp
qed




subsection \<open>The console report\<close>

text \<open>
  Claim C7, as the code has it. For a pair whose validation and collection succeeded, the
  record has eleven keys (\<open>project\<close>, \<open>region\<close> and the nine resource keys). With
  \<^verbatim>\<open>--verbose\<close> the pair prints, right after what was printed before and in the order of
  the record, one block of three entries per key: the key followed by a colon, the
  formatted value, and the delimiter \<^verbatim>\<open>-----\<close>; each key has one block. The only other
  output of the pair follows the blocks: the notices of the persister about files that
  exist. Without \<^verbatim>\<open>--verbose\<close> the pair prints those notices only.
\<close>

theorem verbose_report:
  assumes "check_region service project_id region w = (Inr True, w1)"
      and "get_network_info service project_id region w1 = (Inr info, w2)"
  shows "map fst info =
           [''project'', ''region'', ''vpcs'', ''subnetworks'', ''routes'', ''interconnects'',
            ''lan_interfaces'', ''vpn_gateways'', ''external_gateways'', ''vpn_tunnels'',
            ''routers''] \<and>
         (\<exists>ks. stdout (snd (process_pair service dumps True project_id region w)) =
                 stdout w @
                 concat (map (\<lambda>(key, val). [key @ '':'', dumps val, ''-----'']) info) @
                 map (\<lambda>k. ''File '' @ output_file project_id region k @ '' already exists.'') ks \<and>
               set ks \<subseteq> fst ` set info) \<and>
         (\<exists>ks. stdout (snd (process_pair service dumps False project_id region w)) =
                 stdout w @
                 map (\<lambda>k. ''File '' @ output_file project_id region k @ '' already exists.'') ks \<and>
               set ks \<subseteq> fst ` set info)"
proof (intro conjI)
  show "map fst info =
           [''project'', ''region'', ''vpcs'', ''subnetworks'', ''routes'', ''interconnects'',
            ''lan_interfaces'', ''vpn_gateways'', ''external_gateways'', ''vpn_tunnels'',
            ''routers'']"
    using assms(2) by (rule network_info_key_list)
next
  let ?dir = "if fs w2 output_directory = None then (fs w2)(output_directory \<mapsto> Dir) else fs w2"
  from world_after_check [OF assms(1)] world_after_collect [OF assms(2)]
  have out: "stdout w2 = stdout w" by simp
  have run: "snd (process_pair service dumps verbose project_id region w) =
      snd (persist dumps project_id region info
             ((if verbose then report dumps info w2 else w2)\<lparr>fs := ?dir\<rparr>))" for verbose
    unfolding process_pair_collected [OF assms] by (simp split: prod.splits sum.splits)
  from persist_stdout [of dumps project_id region info "(report dumps info w2)\<lparr>fs := ?dir\<rparr>"]
  show "\<exists>ks. stdout (snd (process_pair service dumps True project_id region w)) =
                 stdout w @
                 concat (map (\<lambda>(key, val). [key @ '':'', dumps val, ''-----'']) info) @
                 map (\<lambda>k. ''File '' @ output_file project_id region k @ '' already exists.'') ks \<and>
               set ks \<subseteq> fst ` set info"
    unfolding run by (simp add: report_eq out)
  from persist_stdout [of dumps project_id region info "w2\<lparr>fs := ?dir\<rparr>"]
  show "\<exists>ks. stdout (snd (process_pair service dumps False project_id region w)) =
                 stdout w @
                 map (\<lambda>k. ''File '' @ output_file project_id region k @ '' already exists.'') ks \<and>
               set ks \<subseteq> fst ` set info"
    unfolding run by (simp add: out)
qed

text \<open>
  The theorem in the world where the file of \<open>vpcs\<close> exists: eleven blocks, then the
  notice.
\<close>

theorem verbose_report_witness:
  "check_region demo_service ''demo-proj'' ''us-central1'' stale_world =
     (Inr True, stale_world\<lparr>calls := [RegionsList ''demo-proj'']\<rparr>) \<and>
   fst (get_network_info demo_service ''demo-proj'' ''us-central1''
          (stale_world\<lparr>calls := [RegionsList ''demo-proj'']\<rparr>)) = Inr demo_info \<and>
   (\<exists>ks. stdout (snd (process_pair demo_service demo_dumps True ''demo-proj'' ''us-central1''
                        stale_world)) =
           stdout stale_world @
           concat (map (\<lambda>(key, val). [key @ '':'', demo_dumps val, ''-----'']) demo_info) @
           map (\<lambda>k. ''File '' @ output_file ''demo-proj'' ''us-central1'' k @ '' already exists.'') ks \<and>
         set ks \<subseteq> fst ` set demo_info) \<and>
   stdout (snd (process_pair demo_service demo_dumps True ''demo-proj'' ''us-central1''
                  stale_world)) =
     [''project:'', CHR 0x22 # ''demo-proj'' @ [CHR 0x22], ''-----'',
      ''region:'', CHR 0x22 # ''us-central1'' @ [CHR 0x22], ''-----'',
      ''vpcs:'', ''{...}'', ''-----'',
      ''subnetworks:'', ''{}'', ''-----'',
      ''routes:'', ''{}'', ''-----'',
      ''interconnects:'', ''{}'', ''-----'',
      ''lan_interfaces:'', ''{}'', ''-----'',
      ''vpn_gateways:'', ''{}'', ''-----'',
      ''external_gateways:'', ''{}'', ''-----'',
      ''vpn_tunnels:'', ''{}'', ''-----'',
      ''routers:'', ''{}'', ''-----'',
      ''File output/demo-proj_us-central1_vpcs.json already exists.'']"
proof -
  have c: "check_region demo_service ''demo-proj'' ''us-central1'' stale_world =
     (Inr True, stale_world\<lparr>calls := [RegionsList ''demo-proj'']\<rparr>)"
    by (simp add: check_region_def and_then_def execute_def lift_def demo_service_def
        demo_regions_def stale_world_def)
  obtain w2 where g: "get_network_info demo_service ''demo-proj'' ''us-central1''
          (stale_world\<lparr>calls := [RegionsList ''demo-proj'']\<rparr>) = (Inr demo_info, w2)"
    by (simp add: get_network_info_def and_then_def execute_def return_def demo_service_def
        demo_info_def)
  from verbose_report [OF c g, of demo_dumps]
  have ex: "\<exists>ks. stdout (snd (process_pair demo_service demo_dumps True ''demo-proj'' ''us-central1''
                        stale_world)) =
           stdout stale_world @
           concat (map (\<lambda>(key, val). [key @ '':'', demo_dumps val, ''-----'']) demo_info) @
           map (\<lambda>k. ''File '' @ output_file ''demo-proj'' ''us-central1'' k @ '' already exists.'') ks \<and>
         set ks \<subseteq> fst ` set demo_info"
    by blast
  have out: "stdout (snd (process_pair demo_service demo_dumps True ''demo-proj'' ''us-central1''
                  stale_world)) =
     [''project:'', CHR 0x22 # ''demo-proj'' @ [CHR 0x22], ''-----'',
      ''region:'', CHR 0x22 # ''us-central1'' @ [CHR 0x22], ''-----'',
      ''vpcs:'', ''{...}'', ''-----'',
      ''subnetworks:'', ''{}'', ''-----'',
      ''routes:'', ''{}'', ''-----'',
      ''interconnects:'', ''{}'', ''-----'',
      ''lan_interfaces:'', ''{}'', ''-----'',
      ''vpn_gateways:'', ''{}'', ''-----'',
      ''external_gateways:'', ''{}'', ''-----'',
      ''vpn_tunnels:'', ''{}'', ''-----'',
      ''routers:'', ''{}'', ''-----'',
      ''File output/demo-proj_us-central1_vpcs.json already exists.'']"
    by (simp add: demo_run_defs stale_world_def)
  from c g ex out show ?thesis by simp
qed

text \<open>
  Claim C7 as it is written counts twelve keys (ten plus two), that is 36 printed entries
  for a pair. At the example project and the region \<open>europe-west1\<close> the report has eleven
  blocks, 33 entries.
\<close>

theorem verbose_report_counterexample:
  "stdout (snd (process_pair demo_service demo_dumps True ''demo-proj'' ''europe-west1''
                  demo_world)) =
     [''project:'', CHR 0x22 # ''demo-proj'' @ [CHR 0x22], ''-----'',
      ''region:'', CHR 0x22 # ''europe-west1'' @ [CHR 0x22], ''-----'',
      ''vpcs:'', ''{...}'', ''-----'',
      ''subnetworks:'', ''{}'', ''-----'',
      ''routes:'', ''{}'', ''-----'',
      ''interconnects:'', ''{}'', ''-----'',
      ''lan_interfaces:'', ''{}'', ''-----'',
      ''vpn_gateways:'', ''{}'', ''-----'',
      ''external_gateways:'', ''{}'', ''-----'',
      ''vpn_tunnels:'', ''{}'', ''-----'',
      ''routers:'', ''{}'', ''-----''] \<and>
   length (stdout (snd (process_pair demo_service demo_dumps True ''demo-proj'' ''europe-west1''
                          demo_world))) \<noteq> 3 * 12"
  by (simp add: demo_run_defs demo_world_def)

subsection \<open>The command line\<close>

text \<open>
  Claim C10, as the code has it. \<^verbatim>\<open>--project\<close> and \<^verbatim>\<open>--region\<close> are split at every
  comma and nothing else is done to the pieces: two commas in a row, or a comma at the
  end, give an empty piece; there is one piece more than there are commas; and the pieces
  hold every other character of the argument, in order (nothing is trimmed). The run
  takes the pieces as identifiers in order, projects outside and regions inside. When
  every pair before a given pair was processed to the end, the run sends the region
  listing request for the project of that pair as it stands (for an empty piece,
  \<^verbatim>\<open>project=''\<close>) and lets \<^verbatim>\<open>check_region\<close> decide on the region of that pair as it
  stands: if it answers \<open>False\<close> the run prints the message with that region and exits
  with status 1, if it raises the run ends with that exception. A pair that stands after
  one that ended the run is never validated.
\<close>

theorem empty_pieces_are_identifiers:
  "py_split CHR '','' (xs @ '',,'' @ ys) = py_split CHR '','' xs @ [] # py_split CHR '','' ys \<and>
   py_split CHR '','' (xs @ '','') = py_split CHR '','' xs @ [[]] \<and>
   length (py_split CHR '','' s) = Suc (count_list s CHR '','') \<and>
   concat (py_split CHR '','' s) = filter (\<lambda>c. c \<noteq> CHR '','') s \<and>
   (py_split CHR '','' (arg_project a) = ps @ project_id # ps' \<and>
    py_split CHR '','' (arg_region a) = rs @ region # rs' \<and>
    project_loop service dumps (arg_verbose a) ps (rs @ region # rs') w = (Completed, w1) \<and>
    region_loop service dumps (arg_verbose a) project_id rs w1 = (Completed, w2) \<longrightarrow>
      take (Suc (length (calls w2))) (calls (snd (main (Inr service) dumps a w))) =
        calls w2 @ [RegionsList project_id] \<and>
      (\<forall>w3. check_region service project_id region w2 = (Inr False, w3) \<longrightarrow>
         main (Inr service) dumps a w =
           (Exit 1, print (''The region '' @ region @ '' is not valid.'') w3)) \<and>
      (\<forall>e w3. check_region service project_id region w2 = (Inl e, w3) \<longrightarrow>
         main (Inr service) dumps a w = (Raised e, w3)))"
proof (intro conjI impI allI)
  have "py_split CHR '','' (xs @ CHR '','' # (CHR '','' # ys)) =
      py_split CHR '','' xs @ py_split CHR '','' (CHR '','' # ys)"
    by (rule py_split_append)
  then show "py_split CHR '','' (xs @ '',,'' @ ys) =
      py_split CHR '','' xs @ [] # py_split CHR '','' ys"
    by simp
next
  have "py_split CHR '','' (xs @ CHR '','' # []) = py_split CHR '','' xs @ py_split CHR '','' []"
    by (rule py_split_append)
  then show "py_split CHR '','' (xs @ '','') = py_split CHR '','' xs @ [[]]" by simp
next
  show "length (py_split CHR '','' s) = Suc (count_list s CHR '','')"
    by (rule py_split_length)
next
  show "concat (py_split CHR '','' s) = filter (\<lambda>c. c \<noteq> CHR '','') s"
    by (rule py_split_concat)
next
  assume h: "py_split CHR '','' (arg_project a) = ps @ project_id # ps' \<and>
    py_split CHR '','' (arg_region a) = rs @ region # rs' \<and>
    project_loop service dumps (arg_verbose a) ps (rs @ region # rs') w = (Completed, w1) \<and>
    region_loop service dumps (arg_verbose a) project_id rs w1 = (Completed, w2)"
  then have h1: "py_split CHR '','' (arg_project a) = ps @ project_id # ps'"
    and h2: "py_split CHR '','' (arg_region a) = rs @ region # rs'"
    and h3: "project_loop service dumps (arg_verbose a) ps (rs @ region # rs') w = (Completed, w1)"
    and h4: "region_loop service dumps (arg_verbose a) project_id rs w1 = (Completed, w2)"
    by simp_all
  have reach: "main (Inr service) dumps a w =
           (case process_pair service dumps (arg_verbose a) project_id region w2 of
              (Completed, w3) \<Rightarrow>
                (case region_loop service dumps (arg_verbose a) project_id rs' w3 of
                   (Completed, w4) \<Rightarrow>
                     project_loop service dumps (arg_verbose a) ps' (rs @ region # rs') w4
                 | (out, w4) \<Rightarrow> (out, w4))
            | (out, w3) \<Rightarrow> (out, w3))"
    by (rule main_reaches [OF h1 h2 h3 h4])
  obtain out w3 where pp:
    "process_pair service dumps (arg_verbose a) project_id region w2 = (out, w3)"
    by (cases "process_pair service dumps (arg_verbose a) project_id region w2")
  from process_pair_calls [of service dumps "arg_verbose a" project_id region w2] pp
  obtain cs where cs: "calls w3 = calls w2 @ RegionsList project_id # cs" by auto
  have "\<exists>cs'. calls (snd (main (Inr service) dumps a w)) = calls w3 @ cs'"
  proof (cases out)
    case Completed
    obtain out' w4 where rl:
      "region_loop service dumps (arg_verbose a) project_id rs' w3 = (out', w4)"
      by (cases "region_loop service dumps (arg_verbose a) project_id rs' w3")
    from region_loop_calls [of service dumps "arg_verbose a" project_id rs' w3] rl
    obtain cs1 where cs1: "calls w4 = calls w3 @ cs1" by auto
    from project_loop_calls [of service dumps "arg_verbose a" ps' "rs @ region # rs'" w4]
    obtain cs2 where cs2: "calls (snd (project_loop service dumps (arg_verbose a) ps'
        (rs @ region # rs') w4)) = calls w4 @ cs2" by blast
    show ?thesis
    proof (cases out')
      case c2: Completed
      with reach pp Completed rl cs1 cs2 show ?thesis by simp
    next
      case (Exit k)
      with reach pp Completed rl cs1 show ?thesis by simp
    next
      case (Raised e)
      with reach pp Completed rl cs1 show ?thesis by simp
    qed
  next
    case (Exit k)
    with reach pp show ?thesis by simp
  next
    case (Raised e)
    with reach pp show ?thesis by simp
  qed
  then obtain cs' where "calls (snd (main (Inr service) dumps a w)) = calls w3 @ cs'" by blast
  with cs show "take (Suc (length (calls w2))) (calls (snd (main (Inr service) dumps a w))) =
        calls w2 @ [RegionsList project_id]"
    by simp
  show "main (Inr service) dumps a w =
           (Exit 1, print (''The region '' @ region @ '' is not valid.'') w3)"
    if "check_region service project_id region w2 = (Inr False, w3)" for w3
    using reach process_pair_invalid [OF that, of dumps "arg_verbose a"] by simp
  show "main (Inr service) dumps a w = (Raised e, w3)"
    if "check_region service project_id region w2 = (Inl e, w3)" for e w3
    using reach process_pair_check_raises [OF that, of dumps "arg_verbose a"] by simp
qed

text \<open>
  The theorem at \<^verbatim>\<open>--region us-central1,,europe-west1\<close>: the first pair is processed to
  the end, then the empty region is validated against the listing and found invalid.
\<close>

theorem empty_pieces_are_identifiers_witness:
  "py_split CHR '','' ''demo-proj,'' = [''demo-proj'', ''''] \<and>
   py_split CHR '','' ''us-central1,,europe-west1'' = [''us-central1'', '''', ''europe-west1''] \<and>
   main (Inr demo_service) demo_dumps
     \<lparr>arg_project = ''demo-proj,'', arg_region = ''us-central1,,europe-west1'',
      arg_verbose = False\<rparr> demo_world =
     (Exit 1,
      \<lparr>calls = RegionsList ''demo-proj'' # list_calls ''demo-proj'' ''us-central1'' @
                [RegionsList ''demo-proj''],
       stdout = [''The region  is not valid.''],
       fs = fs (snd (process_pair demo_service demo_dumps False ''demo-proj'' ''us-central1''
                       demo_world))\<rparr>)"
proof -
  let ?a = "\<lparr>arg_project = ''demo-proj,'', arg_region = ''us-central1,,europe-west1'',
      arg_verbose = False\<rparr>"
  obtain w2 where run:
    "process_pair demo_service demo_dumps False ''demo-proj'' ''us-central1'' demo_world =
       (Completed, w2)"
    and calls2: "calls w2 = RegionsList ''demo-proj'' # list_calls ''demo-proj'' ''us-central1''"
    and out2: "stdout w2 = []"
    using demo_pair_run by simp
  have p: "py_split CHR '','' (arg_project ?a) = [] @ ''demo-proj'' # ['''']" by simp
  have r: "py_split CHR '','' (arg_region ?a) = [''us-central1''] @ '''' # [''europe-west1'']"
    by simp
  have before_p: "project_loop demo_service demo_dumps (arg_verbose ?a) []
      ([''us-central1''] @ '''' # [''europe-west1'']) demo_world = (Completed, demo_world)"
    by simp
  have before_r: "region_loop demo_service demo_dumps (arg_verbose ?a) ''demo-proj''
      [''us-central1''] demo_world = (Completed, w2)"
    using run by simp
  have c: "check_region demo_service ''demo-proj'' '''' w2 =
      (Inr False, w2\<lparr>calls := calls w2 @ [RegionsList ''demo-proj'']\<rparr>)"
    by (simp add: prod_eq_iff check_region_world check_region_result demo_service_def
        demo_regions_def)
  from p r before_p before_r c
    empty_pieces_are_identifiers [where a = ?a and ps = "[]" and project_id = "''demo-proj''"
      and ps' = "['''']" and rs = "[''us-central1'']" and region = "''''"
      and rs' = "[''europe-west1'']" and service = demo_service and dumps = demo_dumps
      and w = demo_world and ?w1.0 = demo_world and ?w2.0 = w2]
  have "main (Inr demo_service) demo_dumps ?a demo_world =
      (Exit 1, print (''The region '' @ '''' @ '' is not valid.'')
                 (w2\<lparr>calls := calls w2 @ [RegionsList ''demo-proj'']\<rparr>))"
    by blast
  moreover have "print (''The region '' @ '''' @ '' is not valid.'')
                 (w2\<lparr>calls := calls w2 @ [RegionsList ''demo-proj'']\<rparr>) =
      \<lparr>calls = RegionsList ''demo-proj'' # list_calls ''demo-proj'' ''us-central1'' @
                [RegionsList ''demo-proj''],
       stdout = [''The region  is not valid.''],
       fs = fs w2\<rparr>"
    by (simp add: print_def calls2 out2)
  ultimately show ?thesis using run by simp
qed

text \<open>
  Claim C10 as it is written has the empty piece validated for every argument with
  consecutive commas. At \<^verbatim>\<open>--project demo-proj,,empty-proj --region moon-base1\<close> the
  first pair ends the run, and no request for the empty project is ever sent.
\<close>

theorem empty_pieces_are_identifiers_counterexample:
  "py_split CHR '','' ''demo-proj,,empty-proj'' = [''demo-proj'', '''', ''empty-proj''] \<and>
   main (Inr demo_service) demo_dumps
     \<lparr>arg_project = ''demo-proj,,empty-proj'', arg_region = ''moon-base1'',
      arg_verbose = False\<rparr> demo_world =
     (Exit 1, \<lparr>calls = [RegionsList ''demo-proj''],
               stdout = [''The region moon-base1 is not valid.''],
               fs = Map.empty\<rparr>) \<and>
   RegionsList '''' \<notin> set (calls (snd (main (Inr demo_service) demo_dumps
     \<lparr>arg_project = ''demo-proj,,empty-proj'', arg_region = ''moon-base1'',
      arg_verbose = False\<rparr> demo_world)))"
proof -
  have run: "main (Inr demo_service) demo_dumps
     \<lparr>arg_project = ''demo-proj,,empty-proj'', arg_region = ''moon-base1'',
      arg_verbose = False\<rparr> demo_world =
     (Exit 1, \<lparr>calls = [RegionsList ''demo-proj''],
               stdout = [''The region moon-base1 is not valid.''],
               fs = Map.empty\<rparr>)"
    by (simp add: main_def process_pair_def check_region_def and_then_def execute_def lift_def
        demo_service_def demo_regions_def demo_world_def print_def)
  show ?thesis unfolding run by simp
qed

end
